theory Spec2Isabelle
  imports Complex_Main
begin

section \<open>Python values, errors and messages\<close>

text \<open>
  Exceptions that the library calls of \<^verbatim>\<open>generate_surface_meshes.py\<close> raise:
  \<^verbatim>\<open>ValueError\<close> (numpy: a reshape that does not fit, operands that do not broadcast, a
  negative dimension, a matrix product of mismatched shapes), \<^verbatim>\<open>IndexError\<close> (numpy
  indexing out of range) and \<^verbatim>\<open>OSError\<close> (\<^verbatim>\<open>os.mkdir\<close>, opening the HDF5 file).
\<close>

datatype error = ValueError | IndexError | OSError

text \<open>
  The values \<^verbatim>\<open>generate_synthetic_mesh\<close> returns: \<^verbatim>\<open>False\<close> from each of its four
  \<^verbatim>\<open>return False\<close> statements, and \<^verbatim>\<open>None\<close> when control falls off the end of the
  function body.
\<close>

datatype pyval = PyNone | PyFalse

text \<open>
  The four lines the function prints, one per failed check; each carries the offending
  argument, as the f-string does.
\<close>

datatype message =
    PathNotFound string
  | InvalidSampleCount int
  | InvalidComponentCount int
  | InvalidBoundary real

section \<open>Arrays\<close>

text \<open>
  A two-dimensional numpy array: its shape and its elements in row-major order.
\<close>

record matrix =
  nrows :: nat
  ncols :: nat
  elems :: "real list"

text \<open>
  A numpy array of any rank, for the \<^verbatim>\<open>pointcloud\<close> argument, whose rank the code
  inspects.
\<close>

record ndarray =
  shape :: "nat list"
  data :: "real list"

definition wf_matrix :: "matrix \<Rightarrow> bool" where
  "wf_matrix m = (length (elems m) = nrows m * ncols m)"

definition wf_ndarray :: "ndarray \<Rightarrow> bool" where
  "wf_ndarray a = (length (data a) = prod_list (shape a))"

definition mk_matrix :: "nat \<Rightarrow> nat \<Rightarrow> (nat \<Rightarrow> nat \<Rightarrow> real) \<Rightarrow> matrix" where
  "mk_matrix n d f =
     \<lparr>nrows = n, ncols = d, elems = concat (map (\<lambda>i. map (f i) [0..<d]) [0..<n])\<rparr>"

definition entry :: "matrix \<Rightarrow> nat \<Rightarrow> nat \<Rightarrow> real" where
  "entry m i j = elems m ! (i * ncols m + j)"

text \<open>\<^verbatim>\<open>m[i]\<close> on a two-dimensional array: row \<open>i\<close>, or IndexError.\<close>

definition getitem_row :: "matrix \<Rightarrow> nat \<Rightarrow> error + real list" where
  "getitem_row m i =
     (if i < nrows m then Inr (take (ncols m) (drop (i * ncols m) (elems m)))
      else Inl IndexError)"

text \<open>\<^verbatim>\<open>v[k]\<close> on a one-dimensional array.\<close>

definition getitem :: "real list \<Rightarrow> nat \<Rightarrow> error + real" where
  "getitem v k = (if k < length v then Inr (v ! k) else Inl IndexError)"

text \<open>\<^verbatim>\<open>m[:k]\<close> on a two-dimensional array, for \<open>k \<ge> 0\<close>: the first \<open>k\<close> rows, or all of
  them when there are fewer.\<close>

definition take_rows :: "nat \<Rightarrow> matrix \<Rightarrow> matrix" where
  "take_rows k m =
     \<lparr>nrows = min k (nrows m), ncols = ncols m,
      elems = take (min k (nrows m) * ncols m) (elems m)\<rparr>"

text \<open>
  \<^verbatim>\<open>np.reshape(a, (-1, 3))\<close>: the elements are kept in order, the row count is inferred,
  and numpy raises ValueError when the size is not a multiple of 3.
\<close>

definition reshape_rows3 :: "ndarray \<Rightarrow> error + matrix" where
  "reshape_rows3 a =
     (let size = prod_list (shape a)
      in if size mod 3 = 0 then Inr \<lparr>nrows = size div 3, ncols = 3, elems = data a\<rparr>
         else Inl ValueError)"

text \<open>An array of rank two seen as a matrix.\<close>

definition as_matrix :: "ndarray \<Rightarrow> matrix" where
  "as_matrix a = \<lparr>nrows = shape a ! 0, ncols = shape a ! 1, elems = data a\<rparr>"

text \<open>
  A binary operator between an \<open>n \<times> c\<close> array and a vector of length \<open>l\<close>, under numpy's
  broadcasting: the trailing dimensions must be equal or one of them must be 1 (that
  operand is then repeated); anything else raises ValueError.
\<close>

definition broadcast_op ::
  "(real \<Rightarrow> real \<Rightarrow> real) \<Rightarrow> matrix \<Rightarrow> real list \<Rightarrow> error + matrix" where
  "broadcast_op f m v =
     (let c = ncols m; l = length v
      in if c = l \<or> l = 1 \<or> c = 1
         then Inr (mk_matrix (nrows m) (if c = 1 then l else c)
                    (\<lambda>i j. f (entry m i (if c = 1 then 0 else j))
                             (v ! (if l = 1 then 0 else j))))
         else Inl ValueError)"

text \<open>\<^verbatim>\<open>a @ b\<close> for two-dimensional arrays.\<close>

definition matmul :: "matrix \<Rightarrow> matrix \<Rightarrow> error + matrix" where
  "matmul a b =
     (if ncols a = nrows b
      then Inr (mk_matrix (nrows a) (ncols b)
                 (\<lambda>i j. sum_list (map (\<lambda>k. entry a i k * entry b k j) [0..<ncols a])))
      else Inl ValueError)"

text \<open>\<^verbatim>\<open>np.clip(a, a_min, a_max)\<close>, which is \<open>minimum(a_max, maximum(a, a_min))\<close>.\<close>

definition np_clip :: "matrix \<Rightarrow> real \<Rightarrow> real \<Rightarrow> matrix" where
  "np_clip m a_min a_max = m\<lparr>elems := map (\<lambda>x. min a_max (max x a_min)) (elems m)\<rparr>"

section \<open>The sampler\<close>

text \<open>
  The state of numpy's global generator is the stream of standard normal values it will
  hand out next. \<^verbatim>\<open>np.random.normal(0, 1, (n, k))\<close> takes the first \<open>n * k\<close> of them, in
  row-major order, and raises ValueError on a negative dimension.
\<close>

type_synonym rng_state = "nat \<Rightarrow> real"

definition random_normal :: "int \<Rightarrow> int \<Rightarrow> rng_state \<Rightarrow> rng_state \<times> (error + matrix)" where
  "random_normal n k g =
     (if n < 0 \<or> k < 0 then (g, Inl ValueError)
      else (\<lambda>t. g (t + nat n * nat k),
            Inr (mk_matrix (nat n) (nat k) (\<lambda>i j. g (i * nat k + j)))))"

text \<open>
  \<^verbatim>\<open>sample\<close>, lines 73 to 88. The variances are taken as non-negative reals: on a
  negative one \<^verbatim>\<open>np.sqrt\<close> gives NaN, which \<^const>\<open>sqrt\<close> does not model.
\<close>

definition sample ::
  "int \<Rightarrow> int \<Rightarrow> real list \<Rightarrow> real \<Rightarrow> rng_state \<Rightarrow> rng_state \<times> (error + matrix)" where
  "sample num_samples num_components explained_variance boundary g =
     (case random_normal num_samples num_components g of
        (g', Inl e) \<Rightarrow> (g', Inl e)
      | (g', Inr samples) \<Rightarrow>
          (let samples = (if boundary \<noteq> - 1 then np_clip samples (- boundary) boundary
                          else samples)
           in (g', broadcast_op (*) samples (map sqrt explained_variance))))"

section \<open>The reconstruction\<close>

text \<open>Line 168: \<^verbatim>\<open>samples @ components + mean\<close>.\<close>

definition reconstruct :: "matrix \<Rightarrow> matrix \<Rightarrow> real list \<Rightarrow> error + matrix" where
  "reconstruct samples comps mean_vec =
     (case matmul samples comps of
        Inl e \<Rightarrow> Inl e
      | Inr p \<Rightarrow> broadcast_op (+) p mean_vec)"

section \<open>Meshes and the mesh builder\<close>

text \<open>
  A \<^verbatim>\<open>vtkUnstructuredGrid\<close>: the data type of its point array, its points in order, and
  its cells as lists of point indices.
  Meshes are objects: the program holds references to them and the heap maps each
  reference to the object's current contents.
\<close>

type_synonym vec3 = "real \<times> real \<times> real"

text \<open>
  The points of a mesh are kept in an array of \<^verbatim>\<open>float\<close> or of \<^verbatim>\<open>double\<close>, as the file it
  was read from declares them. \<^verbatim>\<open>vtkPoints.SetPoint(id, x, y, z)\<close> takes doubles and
  converts each to the type of the array: to the nearest single-precision number, ties to
  the even significand (24 bits; below \<open>2\<^sup>-\<^sup>1\<^sup>2\<^sup>6\<close> the spacing stays \<open>2\<^sup>-\<^sup>1\<^sup>4\<^sup>9\<close>), or not
  at all. Magnitudes beyond the single-precision range are not modelled.
\<close>

datatype vtk_type = VTK_FLOAT | VTK_DOUBLE

definition round_half_even :: "real \<Rightarrow> int" where
  "round_half_even y =
     (let f = \<lfloor>y\<rfloor>; r = y - of_int f
      in if r < 1 / 2 then f else if 1 / 2 < r then f + 1 else if even f then f else f + 1)"

definition to_float32 :: "real \<Rightarrow> real" where
  "to_float32 x =
     (if x = 0 then 0
      else (let e = max \<lfloor>log 2 \<bar>x\<bar>\<rfloor> (- 126); q = 2 powi (e - 23)
            in of_int (round_half_even (x / q)) * q))"

definition store_as :: "vtk_type \<Rightarrow> real \<Rightarrow> real" where
  "store_as t x = (case t of VTK_FLOAT \<Rightarrow> to_float32 x | VTK_DOUBLE \<Rightarrow> x)"

record mesh =
  point_type :: vtk_type
  points :: "vec3 list"
  cells :: "nat list list"

type_synonym mesh_ref = nat

type_synonym heap = "mesh_ref \<Rightarrow> mesh"

text \<open>
  The loop of lines 103 to 105 over the remaining indices, on a point array of type
  \<open>t\<close>: each round reads row \<open>pt_idx\<close> of the point cloud and its first three entries, and
  \<^verbatim>\<open>SetPoint\<close> stores them in place, converted to \<open>t\<close>. An IndexError leaves the points
  written so far as they are.
\<close>

fun set_points ::
  "vtk_type \<Rightarrow> matrix \<Rightarrow> nat list \<Rightarrow> vec3 list \<Rightarrow> vec3 list \<times> error option" where
  "set_points t pointcloud [] pts = (pts, None)"
| "set_points t pointcloud (pt_idx # rest) pts =
     (case getitem_row pointcloud pt_idx of
        Inl e \<Rightarrow> (pts, Some e)
      | Inr pt \<Rightarrow>
          (case (getitem pt 0, getitem pt 1, getitem pt 2) of
             (Inr x, Inr y, Inr z) \<Rightarrow>
               set_points t pointcloud rest
                 (pts[pt_idx := (store_as t x, store_as t y, store_as t z)])
           | _ \<Rightarrow> (pts, Some IndexError)))"

text \<open>Lines 99 and 100: an array that is not of rank two is reshaped to rows of three.\<close>

definition to_rows :: "ndarray \<Rightarrow> error + matrix" where
  "to_rows pointcloud =
     (if length (shape pointcloud) \<noteq> 2 then reshape_rows3 pointcloud
      else Inr (as_matrix pointcloud))"

text \<open>
  \<^verbatim>\<open>pointcloud2surface\<close>, lines 90 to 107. The mesh argument is a reference; the function
  returns the heap as it has left it and either the exception or the reference it
  returns.
\<close>

definition pointcloud2surface ::
  "ndarray \<Rightarrow> mesh_ref \<Rightarrow> heap \<Rightarrow> heap \<times> (error + mesh_ref)" where
  "pointcloud2surface pointcloud mesh h =
     (case to_rows pointcloud of
        Inl e \<Rightarrow> (h, Inl e)
      | Inr pc \<Rightarrow>
          (case set_points (point_type (h mesh)) pc [0..<length (points (h mesh))]
                  (points (h mesh)) of
             (pts, Some e) \<Rightarrow> (h(mesh := (h mesh)\<lparr>points := pts\<rparr>), Inl e)
           | (pts, None) \<Rightarrow> (h(mesh := (h mesh)\<lparr>points := pts\<rparr>), Inr mesh)))"

section \<open>The world of the orchestration\<close>

text \<open>The three arrays of \<^verbatim>\<open>SSM.h5\<close>.\<close>

record ssm =
  components :: matrix
  mean :: "real list"
  explained_variance :: "real list"

text \<open>
  What \<^verbatim>\<open>generate_synthetic_mesh\<close> reads and changes: the paths that exist, the paths at
  which \<^verbatim>\<open>os.mkdir\<close> would raise (a missing parent, no permission), the HDF5 files that
  can be opened, what the VTK reader returns for each file name, the mesh objects, the
  next free reference, the random generator, the lines printed, and the files written,
  in order, each with the directory and the file name that \<^verbatim>\<open>Path(output_path) / name\<close>
  joins and the contents of the mesh at the time of the write.
\<close>

record world =
  paths :: "string set"
  mkdir_denied :: "string set"
  h5_files :: "string \<rightharpoonup> ssm"
  vtk_files :: "string \<Rightarrow> mesh"
  heap :: heap
  next_ref :: mesh_ref
  rng :: rng_state
  stdout :: "message list"
  written :: "((string \<times> string) \<times> mesh) list"

definition print :: "message \<Rightarrow> world \<Rightarrow> world" where
  "print msg w = w\<lparr>stdout := stdout w @ [msg]\<rparr>"

definition os_mkdir :: "string \<Rightarrow> world \<Rightarrow> error + world" where
  "os_mkdir p w =
     (if p \<in> mkdir_denied w then Inl OSError else Inr (w\<lparr>paths := insert p (paths w)\<rparr>))"

definition load_h5py :: "string \<Rightarrow> world \<Rightarrow> error + (matrix \<times> real list \<times> real list)" where
  "load_h5py input_path w =
     (case h5_files w (input_path @ ''/SSM.h5'') of
        None \<Rightarrow> Inl OSError
      | Some f \<Rightarrow> Inr (components f, mean f, explained_variance f))"

definition load_mean_vtk :: "string \<Rightarrow> world \<Rightarrow> mesh_ref \<times> world" where
  "load_mean_vtk input_path w =
     (next_ref w,
      w\<lparr>heap := (heap w)(next_ref w := vtk_files w (input_path @ ''/mean_shape.vtk'')),
        next_ref := Suc (next_ref w)\<rparr>)"

definition write_vtk_file :: "mesh_ref \<Rightarrow> string \<times> string \<Rightarrow> world \<Rightarrow> world" where
  "write_vtk_file unstructured_grid file_name w =
     w\<lparr>written := written w @ [(file_name, heap w unstructured_grid)]\<rparr>"

section \<open>File names\<close>

text \<open>\<^verbatim>\<open>str(i)\<close> for \<open>i \<ge> 0\<close>.\<close>

definition digit_char :: "nat \<Rightarrow> char" where
  "digit_char d = ''0123456789'' ! d"

fun str_nat :: "nat \<Rightarrow> string" where
  "str_nat n = (if n < 10 then [digit_char n] else str_nat (n div 10) @ [digit_char (n mod 10)])"

declare str_nat.simps [simp del]

text \<open>
  \<^verbatim>\<open>s.zfill(width)\<close>: zeros on the left up to the width, after a leading sign if there is
  one.
\<close>

definition zfill :: "int \<Rightarrow> string \<Rightarrow> string" where
  "zfill width s =
     (let fill = replicate (nat (width - int (length s))) (CHR ''0'')
      in case s of
           [] \<Rightarrow> fill
         | c # cs \<Rightarrow> if c = CHR ''+'' \<or> c = CHR ''-'' then c # fill @ cs else fill @ s)"

text \<open>
  Line 171: \<^verbatim>\<open>order = math.floor(math.log(num_samples, 10)) + 1\<close>. The argument \<open>l\<close> is
  the double that \<^verbatim>\<open>math.log(num_samples, 10)\<close> returns, which the library computes as the
  rounded quotient of two rounded natural logarithms.
\<close>

definition order_of :: "real \<Rightarrow> int" where
  "order_of l = \<lfloor>l\<rfloor> + 1"

text \<open>Line 173: \<^verbatim>\<open>f"synthetic{str(i).zfill(order)}.vtk"\<close>.\<close>

definition file_name_of :: "int \<Rightarrow> nat \<Rightarrow> string" where
  "file_name_of order i = ''synthetic'' @ zfill order (str_nat i) @ ''.vtk''"

section \<open>The orchestration\<close>

text \<open>\<^verbatim>\<open>synthetic_pointclouds[i]\<close>: a row, as a one-dimensional array.\<close>

definition row_array :: "matrix \<Rightarrow> nat \<Rightarrow> error + ndarray" where
  "row_array m i =
     (case getitem_row m i of
        Inl e \<Rightarrow> Inl e
      | Inr r \<Rightarrow> Inr \<lparr>shape = [ncols m], data = r\<rparr>)"

text \<open>
  The loop of lines 170 to 173 over the remaining sample indices. \<open>math_log\<close> stands for
  \<^verbatim>\<open>math.log(\<cdot>, 10)\<close> on the integers.
\<close>

fun write_samples ::
  "(int \<Rightarrow> real) \<Rightarrow> string \<Rightarrow> int \<Rightarrow> mesh_ref \<Rightarrow> matrix \<Rightarrow> nat list \<Rightarrow> world
     \<Rightarrow> world \<times> (error + pyval)" where
  "write_samples math_log output_path num_samples mean_vtk pcs [] w = (w, Inr PyNone)"
| "write_samples math_log output_path num_samples mean_vtk pcs (i # rest) w =
     (let order = order_of (math_log num_samples)
      in case row_array pcs i of
           Inl e \<Rightarrow> (w, Inl e)
         | Inr pc \<Rightarrow>
             (case pointcloud2surface pc mean_vtk (heap w) of
                (h, Inl e) \<Rightarrow> (w\<lparr>heap := h\<rparr>, Inl e)
              | (h, Inr synthetic_surface) \<Rightarrow>
                  write_samples math_log output_path num_samples mean_vtk pcs rest
                    (write_vtk_file synthetic_surface (output_path, file_name_of order i)
                       (w\<lparr>heap := h\<rparr>))))"

text \<open>Lines 157 to 173: what runs once the five checks have passed.\<close>

definition run_pipeline ::
  "(int \<Rightarrow> real) \<Rightarrow> string \<Rightarrow> string \<Rightarrow> int \<Rightarrow> int \<Rightarrow> real \<Rightarrow> world
     \<Rightarrow> world \<times> (error + pyval)" where
  "run_pipeline math_log input_path output_path num_samples num_components boundary w =
     (case load_h5py input_path w of
        Inl e \<Rightarrow> (w, Inl e)
      | Inr (comps, mean_vec, variance) \<Rightarrow>
          (case load_mean_vtk input_path w of
             (mean_vtk, w1) \<Rightarrow>
               (let comps = take_rows (nat num_components) comps;
                    variance = take (nat num_components) variance
                in case sample num_samples num_components variance boundary (rng w1) of
                     (g, Inl e) \<Rightarrow> (w1\<lparr>rng := g\<rparr>, Inl e)
                   | (g, Inr samples) \<Rightarrow>
                       (case reconstruct samples comps mean_vec of
                          Inl e \<Rightarrow> (w1\<lparr>rng := g\<rparr>, Inl e)
                        | Inr synthetic_pointclouds \<Rightarrow>
                            write_samples math_log output_path num_samples mean_vtk
                              synthetic_pointclouds [0..<nat num_samples] (w1\<lparr>rng := g\<rparr>)))))"

text \<open>
  \<^verbatim>\<open>generate_synthetic_mesh\<close>, lines 124 to 173. The result is the world as the call has
  left it, and the exception raised or the value returned.
\<close>

definition generate_synthetic_mesh ::
  "(int \<Rightarrow> real) \<Rightarrow> string \<Rightarrow> string \<Rightarrow> int \<Rightarrow> int \<Rightarrow> real \<Rightarrow> world
     \<Rightarrow> world \<times> (error + pyval)" where
  "generate_synthetic_mesh math_log input_path output_path num_samples num_components
       boundary w =
     (if input_path \<notin> paths w then (print (PathNotFound input_path) w, Inr PyFalse)
      else
        (case (if output_path \<notin> paths w then os_mkdir output_path w else Inr w) of
           Inl e \<Rightarrow> (w, Inl e)
         | Inr w1 \<Rightarrow>
             if num_samples \<le> 0
             then (print (InvalidSampleCount num_samples) w1, Inr PyFalse)
             else if num_components \<ge> 95 \<or> num_components \<le> 0
             then (print (InvalidComponentCount num_components) w1, Inr PyFalse)
             else if \<not> (- 1 = boundary \<or> (0 < boundary \<and> boundary \<le> 5))
             then (print (InvalidBoundary boundary) w1, Inr PyFalse)
             else run_pipeline math_log input_path output_path num_samples num_components
                    boundary w1))"

section \<open>Notation for the statements\<close>

text \<open>
  Row \<open>i\<close> of a point cloud with rows of three, as the point that an array of type \<open>t\<close>
  keeps of it.
\<close>

abbreviation stored_vertex :: "vtk_type \<Rightarrow> matrix \<Rightarrow> nat \<Rightarrow> vec3" where
  "stored_vertex t m i \<equiv>
     (store_as t (entry m i 0), store_as t (entry m i 1), store_as t (entry m i 2))"

text \<open>
  The \<open>V\<close> points that row \<open>i\<close> of the matrix of reconstructed point clouds holds, three
  consecutive entries each, as an array of type \<open>t\<close> keeps them.
\<close>

abbreviation sample_vertices :: "vtk_type \<Rightarrow> matrix \<Rightarrow> nat \<Rightarrow> nat \<Rightarrow> vec3 list" where
  "sample_vertices t pcs i V \<equiv>
     map (\<lambda>v. (store_as t (entry pcs i (3 * v)), store_as t (entry pcs i (3 * v + 1)),
               store_as t (entry pcs i (3 * v + 2)))) [0..<V]"

text \<open>
  The world of the end-to-end scenario: a folder \<open>model\<close> holding a model with two
  components over two vertices (mean \<open>[0, 0, 0, 1, 1, 1]\<close>, variances \<open>[4, 1]\<close>) and a
  template mesh of two points, kept as doubles, and one cell; no output folder yet; a generator that
  draws 1 every time.
\<close>

abbreviation scenario_world :: world where
  "scenario_world \<equiv>
     \<lparr>paths = {''model''}, mkdir_denied = {},
      h5_files = [''model/SSM.h5'' \<mapsto>
        \<lparr>components = \<lparr>nrows = 2, ncols = 6, elems = [1, 0, 0, 0, 0, 0, 0, 1, 0, 0, 0, 0]\<rparr>,
         mean = [0, 0, 0, 1, 1, 1], explained_variance = [4, 1]\<rparr>],
      vtk_files = (\<lambda>p. \<lparr>point_type = VTK_DOUBLE, points = [(0, 0, 0), (1, 1, 1)], cells = [[0, 1]]\<rparr>),
      heap = (\<lambda>r. \<lparr>point_type = VTK_DOUBLE, points = [], cells = []\<rparr>), next_ref = 0, rng = (\<lambda>t. 1),
      stdout = [], written = []\<rparr>"

section \<open>Facts about arrays\<close>


lemma nrows_mk_matrix [simp]: "nrows (mk_matrix n d f) = n"
  and ncols_mk_matrix [simp]: "ncols (mk_matrix n d f) = d"
  by (simp_all add: mk_matrix_def)

lemma length_concat_rows:
  "length (concat (map (\<lambda>i. map (f i) [0..<d]) [0..<n])) = n * d"
  by (induction n) simp_all

lemma length_elems_mk_matrix [simp]: "length (elems (mk_matrix n d f)) = n * d"
  by (simp add: mk_matrix_def length_concat_rows)

lemma flat_index_less: "i < n \<Longrightarrow> j < d \<Longrightarrow> i * d + j < n * (d::nat)"
proof -
  assume a: "i < n" "j < d"
  then have "i * d + j < i * d + d" by simp
  also have "\<dots> = Suc i * d" by simp
  also have "\<dots> \<le> n * d" using a(1) by (intro mult_le_mono1) simp
  finally show ?thesis .
qed

lemma concat_rows_drop:
  "i \<le> n \<Longrightarrow> drop (i * d) (concat (map (\<lambda>i. map (f i) [0..<d]) [0..<n]))
     = concat (map (\<lambda>i. map (f i) [0..<d]) [i..<n])"
proof -
  assume "i \<le> n"
  then have "[0..<n] = [0..<i] @ [i..<n]"
    by (metis le_add_diff_inverse upt_add_eq_append zero_le)
  then show ?thesis
    by (simp add: length_concat_rows)
qed

lemma getitem_row_mk_matrix:
  assumes "i < n"
  shows "getitem_row (mk_matrix n d f) i = Inr (map (f i) [0..<d])"
proof -
  have "[i..<n] = i # [Suc i..<n]" using assms by (simp add: upt_conv_Cons)
  then have "take d (drop (i * d) (concat (map (\<lambda>i. map (f i) [0..<d]) [0..<n])))
              = map (f i) [0..<d]"
    using assms by (simp add: concat_rows_drop)
  then show ?thesis using assms by (simp add: getitem_row_def mk_matrix_def)
qed

lemma entry_mk_matrix: 
  assumes "i < n" "j < d" 
  shows "entry (mk_matrix n d f) i j = f i j"
proof -
  let ?xs = "concat (map (\<lambda>i. map (f i) [0..<d]) [0..<n])"
  have "take d (drop (i * d) ?xs) = map (f i) [0..<d]"
    using getitem_row_mk_matrix[OF assms(1), of d f]
    by (simp add: getitem_row_def mk_matrix_def assms(1))
  then have "take d (drop (i * d) ?xs) ! j = f i j" using assms(2) by simp
  moreover have "i * d + j < length ?xs" 
    using flat_index_less[OF assms] by (simp add: length_concat_rows)
  ultimately show ?thesis using assms(2)
    by (simp add: entry_def mk_matrix_def)
qed

lemma entry_np_clip:
  "i * ncols m + j < length (elems m) \<Longrightarrow>
     entry (np_clip m lo hi) i j = min hi (max (entry m i j) lo)"
  by (simp add: entry_def np_clip_def)

lemma broadcast_op_same_length:
  "length v = ncols m \<Longrightarrow>
     broadcast_op f m v = Inr (mk_matrix (nrows m) (ncols m) (\<lambda>i j. f (entry m i j) (v ! j)))"
proof -
  assume a: "length v = ncols m"
  have "mk_matrix (nrows m) (length v)
          (\<lambda>i j. f (entry m i (if length v = 1 then 0 else j)) (v ! (if length v = 1 then 0 else j)))
        = mk_matrix (nrows m) (length v) (\<lambda>i j. f (entry m i j) (v ! j))"
    unfolding mk_matrix_def by (cases "length v = 1") simp_all
  then show ?thesis using a by (simp add: broadcast_op_def Let_def)
qed

lemma mk_matrix_cong:
  "(\<And>i j. i < n \<Longrightarrow> j < d \<Longrightarrow> f i j = g i j) \<Longrightarrow> mk_matrix n d f = mk_matrix n d g"
  by (auto simp: mk_matrix_def intro!: arg_cong[where f = concat] map_cong)

lemma sample_exact_length:
  assumes "0 \<le> n" "0 \<le> K" "length ev = nat K"
  shows "sample n K ev b g =
           (\<lambda>t. g (t + nat n * nat K),
            Inr (mk_matrix (nat n) (nat K)
                  (\<lambda>i j. (if b \<noteq> - 1 then min b (max (g (i * nat K + j)) (- b))
                           else g (i * nat K + j)) * sqrt (ev ! j))))"
proof -
  let ?raw = "mk_matrix (nat n) (nat K) (\<lambda>i j. g (i * nat K + j))"
  let ?s = "if b \<noteq> - 1 then np_clip ?raw (- b) b else ?raw"
  have shape: "nrows ?s = nat n" "ncols ?s = nat K"
    by (simp_all add: np_clip_def)
  have ent: "entry ?s i j = (if b \<noteq> - 1 then min b (max (g (i * nat K + j)) (- b))
                             else g (i * nat K + j))"
    if "i < nat n" "j < nat K" for i j
    using that flat_index_less[OF that] by (simp add: entry_np_clip entry_mk_matrix)
  have "broadcast_op (*) ?s (map sqrt ev)
          = Inr (mk_matrix (nat n) (nat K) (\<lambda>i j. entry ?s i j * (map sqrt ev ! j)))"
    using broadcast_op_same_length[of "map sqrt ev" ?s "(*)"] assms(3) shape by simp
  also have "mk_matrix (nat n) (nat K) (\<lambda>i j. entry ?s i j * (map sqrt ev ! j))
          = mk_matrix (nat n) (nat K)
              (\<lambda>i j. (if b \<noteq> - 1 then min b (max (g (i * nat K + j)) (- b))
                       else g (i * nat K + j)) * sqrt (ev ! j))"
    by (rule mk_matrix_cong) (simp add: ent assms(3))
  finally have bc: "broadcast_op (*) ?s (map sqrt ev)
          = Inr (mk_matrix (nat n) (nat K)
              (\<lambda>i j. (if b \<noteq> - 1 then min b (max (g (i * nat K + j)) (- b))
                       else g (i * nat K + j)) * sqrt (ev ! j)))" .
  show ?thesis
    using assms(1,2) bc by (simp add: sample_def random_normal_def Let_def)
qed

section \<open>The sampler stays within the boundary\<close>

text \<open>
  Claim C1. With \<open>num_samples > 0\<close>, \<open>0 < K < 95\<close>, a non-negative variance vector of
  length exactly \<open>K\<close> and a boundary \<open>b\<close> in \<open>(0, 5]\<close>, \<^verbatim>\<open>sample\<close> returns a
  \<open>num_samples \<times> K\<close> matrix, and its entry in column \<open>j\<close> lies between
  \<open>- b * sqrt (ev ! j)\<close> and \<open>b * sqrt (ev ! j)\<close>, whatever the generator draws.
\<close>

theorem sample_within_boundary:
  assumes "0 < num_samples" and "0 < K" and "K < 95"
    and "length ev = nat K" and "\<forall>v\<in>set ev. 0 \<le> v"
    and "0 < b" and "b \<le> 5"
  shows "\<exists>m. snd (sample num_samples K ev b g) = Inr m
           \<and> nrows m = nat num_samples \<and> ncols m = nat K
           \<and> (\<forall>i<nat num_samples. \<forall>j<nat K.
                 - b * sqrt (ev ! j) \<le> entry m i j \<and> entry m i j \<le> b * sqrt (ev ! j))"
proof -
  let ?m = "mk_matrix (nat num_samples) (nat K)
              (\<lambda>i j. (if b \<noteq> - 1 then min b (max (g (i * nat K + j)) (- b))
                       else g (i * nat K + j)) * sqrt (ev ! j))"
  have s: "snd (sample num_samples K ev b g) = Inr ?m"
    using sample_exact_length[of num_samples K ev b g] assms by simp
  have bnd: "- b * sqrt (ev ! j) \<le> entry ?m i j \<and> entry ?m i j \<le> b * sqrt (ev ! j)"
    if ij: "i < nat num_samples" "j < nat K" for i j
  proof -
    have "0 \<le> ev ! j" using assms(4,5) ij(2) by simp
    then have r: "0 \<le> sqrt (ev ! j)" by simp
    let ?c = "min b (max (g (i * nat K + j)) (- b))"
    have c: "- b \<le> ?c" "?c \<le> b" using assms(6) by simp_all
    have e: "entry ?m i j = ?c * sqrt (ev ! j)"
      using ij assms(6) by (simp add: entry_mk_matrix)
    have "- b * sqrt (ev ! j) \<le> ?c * sqrt (ev ! j)"
      using c(1) r by (rule mult_right_mono)
    moreover have "?c * sqrt (ev ! j) \<le> b * sqrt (ev ! j)"
      using c(2) r by (rule mult_right_mono)
    ultimately show ?thesis using e by simp
  qed
  show ?thesis
    using s bnd by (intro exI[of _ ?m]) simp
qed

theorem sample_within_boundary_witness:
  "(0::int) < 1 \<and> (0::int) < 2 \<and> (2::int) < 95 \<and> length [4, 1::real] = nat 2
   \<and> (0::real) \<le> 4 \<and> (0::real) \<le> 1 \<and> (0::real) < 3 \<and> (3::real) \<le> 5
   \<and> (\<exists>m. snd (sample 1 2 [4, 1] 3 (\<lambda>t. 10)) = Inr m
           \<and> nrows m = nat 1 \<and> ncols m = nat 2
           \<and> (\<forall>i<nat 1. \<forall>j<nat 2.
                 - 3 * sqrt ([4, 1] ! j) \<le> entry m i j \<and> entry m i j \<le> 3 * sqrt ([4, 1] ! j)))"
  using sample_within_boundary[of 1 2 "[4, 1]" 3 "\<lambda>t. 10"] by simp

section \<open>Reconstruction is the linear map, and maps zero to the mean\<close>

lemma reconstruct_closed_form:
  assumes "nrows comps = ncols samples" and "length mean_vec = ncols comps"
  shows "reconstruct samples comps mean_vec =
           Inr (mk_matrix (nrows samples) (ncols comps)
                 (\<lambda>i j. sum_list (map (\<lambda>k. entry samples i k * entry comps k j)
                                    [0..<ncols samples]) + mean_vec ! j))"
proof -
  let ?f = "\<lambda>i j. sum_list (map (\<lambda>k. entry samples i k * entry comps k j) [0..<ncols samples])"
  let ?p = "mk_matrix (nrows samples) (ncols comps) ?f"
  have mm: "matmul samples comps = Inr ?p"
    using assms(1) by (simp add: matmul_def)
  have "broadcast_op (+) ?p mean_vec
          = Inr (mk_matrix (nrows ?p) (ncols ?p) (\<lambda>i j. entry ?p i j + mean_vec ! j))"
    using assms(2) by (intro broadcast_op_same_length) simp
  also have "mk_matrix (nrows ?p) (ncols ?p) (\<lambda>i j. entry ?p i j + mean_vec ! j)
          = mk_matrix (nrows samples) (ncols comps) (\<lambda>i j. ?f i j + mean_vec ! j)"
    by (simp, rule mk_matrix_cong) (simp add: entry_mk_matrix)
  finally show ?thesis using mm by (simp add: reconstruct_def)
qed

text \<open>
  Claim C3. For a \<open>K \<times> D\<close> components matrix and a mean of length \<open>D\<close>, the
  reconstruction of the all-zero \<open>n \<times> K\<close> coefficient matrix succeeds and each of its rows
  is the mean; and for any coefficient matrix with \<open>K\<close> columns the reconstruction is the
  matrix whose entry \<open>(i, j)\<close> is the sum over \<open>k\<close> of
  \<open>samples[i, k] * components[k, j]\<close>, plus \<open>mean[j]\<close>: a function of its three inputs
  alone.
\<close>

theorem reconstruct_zero_is_mean:
  assumes "nrows comps = K" and "ncols comps = D" and "length mean_vec = D"
  shows "(\<exists>r. reconstruct (mk_matrix n K (\<lambda>i j. 0)) comps mean_vec = Inr r
              \<and> nrows r = n \<and> ncols r = D
              \<and> (\<forall>i<n. getitem_row r i = Inr mean_vec))
         \<and> (ncols samples = K \<longrightarrow>
              reconstruct samples comps mean_vec =
                Inr (mk_matrix (nrows samples) D
                      (\<lambda>i j. sum_list (map (\<lambda>k. entry samples i k * entry comps k j) [0..<K])
                               + mean_vec ! j)))"
proof (intro conjI impI)
  let ?z = "mk_matrix n K (\<lambda>i j. 0)"
  let ?r = "mk_matrix n D
              (\<lambda>i j. sum_list (map (\<lambda>k. entry ?z i k * entry comps k j) [0..<K]) + mean_vec ! j)"
  have r: "reconstruct ?z comps mean_vec = Inr ?r"
    using reconstruct_closed_form[of comps ?z mean_vec] assms by simp
  have row: "getitem_row ?r i = Inr mean_vec" if "i < n" for i
  proof -
    have "sum_list (map (\<lambda>k. entry ?z i k * entry comps k j) [0..<K]) = 0" for j
    proof -
      have eq: "map (\<lambda>k. entry ?z i k * entry comps k j) [0..<K] = map (\<lambda>k. 0) [0..<K]"
        using that by (intro map_cong) (simp_all add: entry_mk_matrix)
      have "sum_list (map (\<lambda>k. 0::real) [0..<K]) = 0" by simp
      with eq show ?thesis by (simp only:)
    qed
    then have "getitem_row ?r i = Inr (map (\<lambda>j. mean_vec ! j) [0..<D])"
      using that by (simp add: getitem_row_mk_matrix)
    then show ?thesis unfolding assms(3)[symmetric] by (simp add: map_nth)
  qed
  show "\<exists>r. reconstruct ?z comps mean_vec = Inr r \<and> nrows r = n \<and> ncols r = D
              \<and> (\<forall>i<n. getitem_row r i = Inr mean_vec)"
    using r row by (intro exI[of _ ?r]) simp
next
  assume "ncols samples = K"
  then show "reconstruct samples comps mean_vec =
                Inr (mk_matrix (nrows samples) D
                      (\<lambda>i j. sum_list (map (\<lambda>k. entry samples i k * entry comps k j) [0..<K])
                               + mean_vec ! j))"
    using reconstruct_closed_form[of comps samples mean_vec] assms by simp
qed

theorem reconstruct_zero_is_mean_witness:
  "nrows \<lparr>nrows = 2, ncols = 6, elems = [1, 0, 0, 0, 0, 0, 0, 1, 0, 0, 0, 0]\<rparr> = 2
   \<and> ncols \<lparr>nrows = 2, ncols = 6, elems = [1, 0, 0, 0, 0, 0, 0, 1, 0, 0, 0, 0]\<rparr> = 6
   \<and> length [0, 0, 0, 1, 1, 1 :: real] = 6
   \<and> ncols \<lparr>nrows = 1, ncols = 2, elems = [1, 1]\<rparr> = 2
   \<and> (\<exists>r. reconstruct (mk_matrix 1 2 (\<lambda>i j. 0))
              \<lparr>nrows = 2, ncols = 6, elems = [1, 0, 0, 0, 0, 0, 0, 1, 0, 0, 0, 0]\<rparr>
              [0, 0, 0, 1, 1, 1] = Inr r
          \<and> getitem_row r 0 = Inr [0, 0, 0, 1, 1, 1])
   \<and> reconstruct \<lparr>nrows = 1, ncols = 2, elems = [1, 1]\<rparr>
        \<lparr>nrows = 2, ncols = 6, elems = [1, 0, 0, 0, 0, 0, 0, 1, 0, 0, 0, 0]\<rparr>
        [0, 0, 0, 1, 1, 1]
      = Inr \<lparr>nrows = 1, ncols = 6, elems = [1, 1, 0, 1, 1, 1]\<rparr>"
  using reconstruct_zero_is_mean[where
      comps = "\<lparr>nrows = 2, ncols = 6, elems = [1, 0, 0, 0, 0, 0, 0, 1, 0, 0, 0, 0]\<rparr>"
      and K = 2 and D = 6 and mean_vec = "[0, 0, 0, 1, 1, 1]"
      and samples = "\<lparr>nrows = 1, ncols = 2, elems = [1, 1]\<rparr>" and n = 1]
  by (auto simp: mk_matrix_def entry_def eval_nat_numeral)

section \<open>The sampler needs a variance vector of the sampled width\<close>

text \<open>
  Claim C6, as stated, fails: with two components and a variance vector of length
  three the product of line 87 does not broadcast and \<^verbatim>\<open>sample\<close> raises ValueError.
\<close>

theorem sample_longer_variance_counterexample:
  "snd (sample 1 2 [1, 1, 1] (- 1) (\<lambda>t. 0)) = Inl ValueError"
  by (simp add: sample_def random_normal_def broadcast_op_def mk_matrix_def Let_def)

text \<open>
  Claim C6, amended. With valid \<open>num_samples\<close>, \<open>K\<close> and boundary, and a non-negative
  variance vector of length exactly \<open>K\<close> (what \<^verbatim>\<open>generate_synthetic_mesh\<close> passes, having
  cut the vector to its first \<open>K\<close> entries on line 162), \<^verbatim>\<open>sample\<close> succeeds and returns a
  \<open>num_samples \<times> K\<close> matrix whose column \<open>j\<close> is the drawn column, clipped unless the
  boundary is \<open>- 1\<close>, times \<open>sqrt (ev ! j)\<close>.
\<close>

theorem sample_exact_variance_length:
  assumes "0 < num_samples" and "0 < K" and "K < 95"
    and "length ev = nat K" and "\<forall>v\<in>set ev. 0 \<le> v"
    and "b = - 1 \<or> (0 < b \<and> b \<le> 5)"
  shows "\<exists>m. snd (sample num_samples K ev b g) = Inr m
           \<and> nrows m = nat num_samples \<and> ncols m = nat K
           \<and> (\<forall>i<nat num_samples. \<forall>j<nat K.
                 entry m i j =
                   (if b = - 1 then g (i * nat K + j)
                    else min b (max (g (i * nat K + j)) (- b))) * sqrt (ev ! j))"
proof -
  let ?m = "mk_matrix (nat num_samples) (nat K)
              (\<lambda>i j. (if b \<noteq> - 1 then min b (max (g (i * nat K + j)) (- b))
                       else g (i * nat K + j)) * sqrt (ev ! j))"
  have "snd (sample num_samples K ev b g) = Inr ?m"
    using sample_exact_length[of num_samples K ev b g] assms by simp
  then show ?thesis
    by (intro exI[of _ ?m]) (simp add: entry_mk_matrix)
qed

theorem sample_exact_variance_length_witness:
  "(0::int) < 1 \<and> (0::int) < 2 \<and> (2::int) < 95 \<and> length [4, 1::real] = nat 2
   \<and> (0::real) \<le> 4 \<and> (0::real) \<le> 1 \<and> (0::real) < 3 \<and> (3::real) \<le> 5
   \<and> (\<exists>m. snd (sample 1 2 [4, 1] 3 (\<lambda>t. 10)) = Inr m
           \<and> nrows m = 1 \<and> ncols m = 2 \<and> entry m 0 0 = 6 \<and> entry m 0 1 = 3)"
  using sample_exact_variance_length[of 1 2 "[4, 1]" 3 "\<lambda>t. 10"]
  by (auto simp: eval_nat_numeral)

section \<open>Facts about the mesh builder\<close>

lemma store_as_double [simp]: "store_as VTK_DOUBLE x = x"
  by (simp add: store_as_def)

lemma getitem_row_entries:
  assumes "wf_matrix m" and "i < nrows m"
  shows "getitem_row m i = Inr (map (entry m i) [0..<ncols m])"
proof -
  let ?c = "ncols m"
  have le: "i * ?c + ?c \<le> length (elems m)"
  proof -
    have "i * ?c + ?c = Suc i * ?c" by simp
    also have "\<dots> \<le> nrows m * ?c" using assms(2) by (intro mult_le_mono1) simp
    finally show ?thesis using assms(1) by (simp add: wf_matrix_def)
  qed
  have "take ?c (drop (i * ?c) (elems m)) = map (entry m i) [0..<?c]"
    using le by (intro nth_equalityI) (simp_all add: entry_def)
  then show ?thesis using assms(2) by (simp add: getitem_row_def)
qed

lemma getitem_map_upt: "k < c \<Longrightarrow> getitem (map f [0..<c]) k = Inr (f k)"
  by (simp add: getitem_def)

lemma set_points_step:
  assumes "wf_matrix m" and "3 \<le> ncols m" and "i < nrows m"
  shows "set_points t m (i # rest) pts =
           set_points t m rest (pts[i := stored_vertex t m i])"
  using assms by (simp add: getitem_row_entries getitem_map_upt)

lemma set_points_all_rows:
  assumes "wf_matrix m" and "3 \<le> ncols m" and "\<forall>i\<in>set idx. i < nrows m"
  shows "set_points t m idx pts =
           (fold (\<lambda>i p. p[i := stored_vertex t m i]) idx pts, None)"
  using assms(3)
proof (induction idx arbitrary: pts)
  case Nil
  then show ?case by simp
next
  case (Cons i idx)
  then show ?case
    using set_points_step[OF assms(1,2), where i = i and rest = idx and pts = pts and t = t] by simp
qed

lemma set_points_missing_row:
  assumes "wf_matrix m" and "3 \<le> ncols m" and "\<forall>i\<in>set idx. i < nrows m"
    and "nrows m \<le> j"
  shows "set_points t m (idx @ j # rest) pts =
           (fold (\<lambda>i p. p[i := stored_vertex t m i]) idx pts,
            Some IndexError)"
  using assms(3)
proof (induction idx arbitrary: pts)
  case Nil
  then show ?case using assms(4) by (simp add: getitem_row_def)
next
  case (Cons i idx)
  then show ?case
    using set_points_step[OF assms(1,2), where i = i and rest = "idx @ j # rest" and pts = pts and t = t] by simp
qed

lemma fold_update_prefix:
  "V \<le> length pts \<Longrightarrow>
     fold (\<lambda>i p. p[i := f i]) [0..<V] pts = map f [0..<V] @ drop V pts"
proof (induction V)
  case 0
  then show ?case by simp
next
  case (Suc V)
  then have "fold (\<lambda>i p. p[i := f i]) [0..<Suc V] pts = (map f [0..<V] @ drop V pts)[V := f V]"
    by simp
  also have "\<dots> = map f [0..<V] @ (drop V pts)[0 := f V]"
    by (simp add: list_update_append)
  also have "drop V pts = pts ! V # drop (Suc V) pts"
    using Suc.prems by (simp add: Cons_nth_drop_Suc)
  finally show ?case by simp
qed

lemma wf_to_rows:
  assumes "wf_ndarray pc" and "to_rows pc = Inr m"
  shows "wf_matrix m"
proof (cases "length (shape pc) = 2")
  case True
  then obtain a b where "shape pc = [a, b]"
    by (cases "shape pc") (auto simp: length_Suc_conv)
  then show ?thesis
    using assms by (auto simp: to_rows_def as_matrix_def wf_matrix_def wf_ndarray_def)
next
  case False
  then show ?thesis
    using assms
    by (auto simp: to_rows_def reshape_rows3_def wf_matrix_def wf_ndarray_def Let_def
        split: if_splits)
qed

lemma pointcloud2surface_enough_rows:
  assumes "wf_ndarray pc" and "to_rows pc = Inr m" and "3 \<le> ncols m"
    and "length (points (h r)) \<le> nrows m"
  shows "pointcloud2surface pc r h =
           (h(r := (h r)\<lparr>points := map (stored_vertex (point_type (h r)) m)
                                      [0..<length (points (h r))]\<rparr>), Inr r)"
proof -
  have wf: "wf_matrix m" using assms(1,2) by (rule wf_to_rows)
  have "set_points (point_type (h r)) m [0..<length (points (h r))] (points (h r)) =
          (map (stored_vertex (point_type (h r)) m) [0..<length (points (h r))], None)"
    using set_points_all_rows[OF wf assms(3), where idx = "[0..<length (points (h r))]"
        and pts = "points (h r)" and t = "point_type (h r)"]
      assms(4) by (simp add: fold_update_prefix)
  then show ?thesis using assms(2) by (simp add: pointcloud2surface_def)
qed

lemma pointcloud2surface_too_few_rows:
  assumes "wf_ndarray pc" and "to_rows pc = Inr m" and "3 \<le> ncols m"
    and "nrows m < length (points (h r))"
  shows "pointcloud2surface pc r h =
           (h(r := (h r)\<lparr>points := map (stored_vertex (point_type (h r)) m)
                                      [0..<nrows m] @ drop (nrows m) (points (h r))\<rparr>),
            Inl IndexError)"
proof -
  have wf: "wf_matrix m" using assms(1,2) by (rule wf_to_rows)
  let ?V = "length (points (h r))"
  have "[0..<?V] = [0..<nrows m] @ nrows m # [Suc (nrows m)..<?V]"
    using assms(4) by (metis less_imp_le_nat upt_conv_Cons le_add_diff_inverse upt_add_eq_append zero_le)
  then have "set_points (point_type (h r)) m [0..<?V] (points (h r)) =
          (map (stored_vertex (point_type (h r)) m) [0..<nrows m]
             @ drop (nrows m) (points (h r)), Some IndexError)"
    using set_points_missing_row[OF wf assms(3), where idx = "[0..<nrows m]" and j = "nrows m"
        and rest = "[Suc (nrows m)..<?V]" and pts = "points (h r)" and t = "point_type (h r)"]
      assms(4)
    by (simp add: fold_update_prefix)
  then show ?thesis using assms(2) by (simp add: pointcloud2surface_def)
qed

lemma upt_3: "[0..<3] = [0, 1, 2]"
  by (simp add: eval_nat_numeral)

lemma floor_log2_16777217: "\<lfloor>log 2 16777217\<rfloor> = 24"
proof -
  have a: "(2::real) powr 24 \<le> 16777217"
    by (simp add: powr_numeral)
  have b: "(16777217::real) < 2 powr 25"
    by (simp add: powr_numeral)
  have "24 \<le> log 2 16777217" using a by (simp add: le_log_iff)
  moreover have "log 2 16777217 < 25" using b by (simp add: log_less_iff)
  ultimately show ?thesis by (simp add: floor_eq_iff)
qed

lemma to_float32_16777217: "to_float32 16777217 = 16777216"
proof -
  have h: "(16777217::real) / 2 = 8388608 + 1 / 2" by simp
  have fl: "\<lfloor>(16777217::real) / 2\<rfloor> = 8388608" unfolding h by (simp add: floor_eq_iff)
  have "round_half_even (16777217 / 2) = 8388608"
    by (simp add: round_half_even_def Let_def fl)
  then show ?thesis
    by (simp add: to_float32_def Let_def floor_log2_16777217)
qed

section \<open>The mesh builder writes the point cloud and keeps the connectivity\<close>

text \<open>
  Claim C2, as stated, fails: on a template whose points are kept in single precision,
  the coordinate 16777217 of a one-row point cloud is stored as 16777216, so the point
  of the returned mesh is not the row of the point cloud.
\<close>

theorem pointcloud2surface_float_counterexample:
  "to_rows \<lparr>shape = [3], data = [16777217, 0, 0]\<rparr>
     = Inr \<lparr>nrows = 1, ncols = 3, elems = [16777217, 0, 0]\<rparr>
   \<and> getitem_row \<lparr>nrows = 1, ncols = 3, elems = [16777217, 0, 0]\<rparr> 0 = Inr [16777217, 0, 0]
   \<and> pointcloud2surface \<lparr>shape = [3], data = [16777217, 0, 0]\<rparr> 0
        (\<lambda>r. \<lparr>point_type = VTK_FLOAT, points = [(1, 1, 1)], cells = [[0]]\<rparr>)
      = ((\<lambda>r. \<lparr>point_type = VTK_FLOAT, points = [(1, 1, 1)], cells = [[0]]\<rparr>)
           (0 := \<lparr>point_type = VTK_FLOAT, points = [(16777216, 0, 0)], cells = [[0]]\<rparr>), Inr 0)"
proof -
  let ?pc = "\<lparr>shape = [3], data = [16777217, 0, 0]\<rparr>"
  let ?m = "\<lparr>nrows = 1, ncols = 3, elems = [16777217, 0, 0]\<rparr>"
  let ?h = "\<lambda>r::nat. \<lparr>point_type = VTK_FLOAT, points = [(1, 1, 1)], cells = [[0::nat]]\<rparr>"
  have wf: "wf_ndarray ?pc" by (simp add: wf_ndarray_def)
  have tr: "to_rows ?pc = Inr ?m" by (simp add: to_rows_def reshape_rows3_def)
  have row: "getitem_row ?m 0 = Inr [16777217, 0, 0]" by (simp add: getitem_row_def)
  have zero: "to_float32 0 = 0" by (simp add: to_float32_def)
  have "pointcloud2surface ?pc 0 ?h =
          (?h(0 := (?h 0)\<lparr>points := map (stored_vertex (point_type (?h 0)) ?m)
                                     [0..<length (points (?h 0))]\<rparr>), Inr 0)"
    by (rule pointcloud2surface_enough_rows[OF wf tr]) simp_all
  then have run: "pointcloud2surface ?pc 0 ?h =
          (?h(0 := \<lparr>point_type = VTK_FLOAT, points = [(16777216, 0, 0)], cells = [[0]]\<rparr>), Inr 0)"
    by (simp add: entry_def store_as_def to_float32_16777217 zero)
  show ?thesis using tr row run by (intro conjI)
qed

text \<open>
  Claim C2, amended. When the point cloud is, after lines 99 and 100, exactly \<open>V\<close> rows of
  three reals, \<open>V\<close> the number of points of the template, \<^verbatim>\<open>pointcloud2surface\<close> returns the
  mesh with point \<open>i\<close> equal to row \<open>i\<close> of the point cloud converted to the data type of
  the template's point array, for every \<open>i < V\<close>, in the template's order: the row itself
  when the array is of doubles, the nearest single-precision numbers when it is of
  floats. The cells and the data type are those of the template.
\<close>

theorem pointcloud2surface_vertices:
  assumes "wf_ndarray pc" and "to_rows pc = Inr m" and "ncols m = 3"
    and "nrows m = length (points (h r))"
  shows "\<exists>h'. pointcloud2surface pc r h = (h', Inr r)
           \<and> length (points (h' r)) = nrows m
           \<and> (\<forall>i<nrows m. \<exists>x y z. getitem_row m i = Inr [x, y, z]
                 \<and> points (h' r) ! i
                     = (store_as (point_type (h r)) x, store_as (point_type (h r)) y,
                        store_as (point_type (h r)) z))
           \<and> (point_type (h r) = VTK_DOUBLE \<longrightarrow>
                (\<forall>i<nrows m. \<exists>x y z. getitem_row m i = Inr [x, y, z]
                                   \<and> points (h' r) ! i = (x, y, z)))
           \<and> cells (h' r) = cells (h r)
           \<and> point_type (h' r) = point_type (h r)"
proof -
  let ?h = "h(r := (h r)\<lparr>points := map (stored_vertex (point_type (h r)) m)
                                      [0..<length (points (h r))]\<rparr>)"
  have wf: "wf_matrix m" using assms(1,2) by (rule wf_to_rows)
  have run: "pointcloud2surface pc r h = (?h, Inr r)"
    using assms by (intro pointcloud2surface_enough_rows) simp_all
  have row: "getitem_row m i = Inr [entry m i 0, entry m i 1, entry m i 2]" if "i < nrows m" for i
    using getitem_row_entries[OF wf that] assms(3) by (simp add: upt_3)
  have stored: "\<forall>i<nrows m. \<exists>x y z. getitem_row m i = Inr [x, y, z]
                 \<and> points (?h r) ! i
                     = (store_as (point_type (h r)) x, store_as (point_type (h r)) y,
                        store_as (point_type (h r)) z)"
    using row assms(4) by simp
  have exact: "\<forall>i<nrows m. \<exists>x y z. getitem_row m i = Inr [x, y, z]
                                   \<and> points (?h r) ! i = (x, y, z)"
    if "point_type (h r) = VTK_DOUBLE"
    using row assms(4) that by simp
  show ?thesis
    using run stored exact assms(4) by (intro exI[of _ ?h] conjI impI) simp_all
qed

theorem pointcloud2surface_vertices_witness:
  "wf_ndarray \<lparr>shape = [6], data = [1, 1, 0, 1, 1, 1]\<rparr>
   \<and> to_rows \<lparr>shape = [6], data = [1, 1, 0, 1, 1, 1]\<rparr>
       = Inr \<lparr>nrows = 2, ncols = 3, elems = [1, 1, 0, 1, 1, 1]\<rparr>
   \<and> (\<exists>h'. pointcloud2surface \<lparr>shape = [6], data = [1, 1, 0, 1, 1, 1]\<rparr> 0
               (\<lambda>r. \<lparr>point_type = VTK_DOUBLE, points = [(0, 0, 0), (1, 1, 1)], cells = [[0, 1]]\<rparr>)
             = (h', Inr 0)
          \<and> length (points (h' 0)) = 2
          \<and> points (h' 0) ! 0 = (1, 1, 0) \<and> points (h' 0) ! 1 = (1, 1, 1)
          \<and> cells (h' 0) = [[0, 1]] \<and> point_type (h' 0) = VTK_DOUBLE)
   \<and> wf_ndarray \<lparr>shape = [3], data = [16777217, 0, 0]\<rparr>
   \<and> to_rows \<lparr>shape = [3], data = [16777217, 0, 0]\<rparr>
       = Inr \<lparr>nrows = 1, ncols = 3, elems = [16777217, 0, 0]\<rparr>
   \<and> (\<exists>h'. pointcloud2surface \<lparr>shape = [3], data = [16777217, 0, 0]\<rparr> 0
               (\<lambda>r. \<lparr>point_type = VTK_FLOAT, points = [(1, 1, 1)], cells = [[0]]\<rparr>)
             = (h', Inr 0)
          \<and> length (points (h' 0)) = 1
          \<and> points (h' 0) ! 0 = (16777216, 0, 0)
          \<and> cells (h' 0) = [[0]] \<and> point_type (h' 0) = VTK_FLOAT)"
proof -
  let ?pc = "\<lparr>shape = [6], data = [1, 1, 0, 1, 1, 1]\<rparr>"
  let ?m = "\<lparr>nrows = 2, ncols = 3, elems = [1, 1, 0, 1, 1, 1]\<rparr>"
  let ?h = "\<lambda>r::nat. \<lparr>point_type = VTK_DOUBLE, points = [(0, 0, 0), (1, 1, 1)], cells = [[0::nat, 1]]\<rparr>"
  have wf: "wf_ndarray ?pc" by (simp add: wf_ndarray_def)
  have tr: "to_rows ?pc = Inr ?m" by (simp add: to_rows_def reshape_rows3_def)
  have "\<exists>h'. pointcloud2surface ?pc 0 ?h = (h', Inr 0)
           \<and> length (points (h' 0)) = nrows ?m
           \<and> (\<forall>i<nrows ?m. \<exists>x y z. getitem_row ?m i = Inr [x, y, z]
                 \<and> points (h' 0) ! i
                     = (store_as (point_type (?h 0)) x, store_as (point_type (?h 0)) y,
                        store_as (point_type (?h 0)) z))
           \<and> (point_type (?h 0) = VTK_DOUBLE \<longrightarrow>
                (\<forall>i<nrows ?m. \<exists>x y z. getitem_row ?m i = Inr [x, y, z]
                                   \<and> points (h' 0) ! i = (x, y, z)))
           \<and> cells (h' 0) = cells (?h 0)
           \<and> point_type (h' 0) = point_type (?h 0)"
    by (rule pointcloud2surface_vertices[OF wf tr]) simp_all
  then obtain h' where run: "pointcloud2surface ?pc 0 ?h = (h', Inr 0)"
    and len: "length (points (h' 0)) = 2"
    and rows: "\<forall>i<2. \<exists>x y z. getitem_row ?m i = Inr [x, y, z] \<and> points (h' 0) ! i = (x, y, z)"
    and cl: "cells (h' 0) = [[0, 1]]"
    and ty: "point_type (h' 0) = VTK_DOUBLE"
    by auto
  have r0: "getitem_row ?m 0 = Inr [1, 1, 0]" and r1: "getitem_row ?m 1 = Inr [1, 1, 1]"
    by (simp_all add: getitem_row_def)
  have "\<exists>x y z. getitem_row ?m 0 = Inr [x, y, z] \<and> points (h' 0) ! 0 = (x, y, z)"
    using rows by simp
  then have p0: "points (h' 0) ! 0 = (1, 1, 0)" unfolding r0 by auto
  have "\<exists>x y z. getitem_row ?m 1 = Inr [x, y, z] \<and> points (h' 0) ! 1 = (x, y, z)"
    using rows by simp
  then have p1: "points (h' 0) ! 1 = (1, 1, 1)" unfolding r1 by auto
  have double: "\<exists>h'. pointcloud2surface ?pc 0 ?h = (h', Inr 0)
          \<and> length (points (h' 0)) = 2
          \<and> points (h' 0) ! 0 = (1, 1, 0) \<and> points (h' 0) ! 1 = (1, 1, 1)
          \<and> cells (h' 0) = [[0, 1]] \<and> point_type (h' 0) = VTK_DOUBLE"
    by (intro conjI exI[of _ h']) (rule run len p0 p1 cl ty)+
  let ?pcF = "\<lparr>shape = [3], data = [16777217, 0, 0]\<rparr>"
  let ?mF = "\<lparr>nrows = 1, ncols = 3, elems = [16777217, 0, 0]\<rparr>"
  let ?hF = "\<lambda>r::nat. \<lparr>point_type = VTK_FLOAT, points = [(1, 1, 1)], cells = [[0::nat]]\<rparr>"
  have wfF: "wf_ndarray ?pcF" by (simp add: wf_ndarray_def)
  have trF: "to_rows ?pcF = Inr ?mF" by (simp add: to_rows_def reshape_rows3_def)
  have "\<exists>h'. pointcloud2surface ?pcF 0 ?hF = (h', Inr 0)
           \<and> length (points (h' 0)) = nrows ?mF
           \<and> (\<forall>i<nrows ?mF. \<exists>x y z. getitem_row ?mF i = Inr [x, y, z]
                 \<and> points (h' 0) ! i
                     = (store_as (point_type (?hF 0)) x, store_as (point_type (?hF 0)) y,
                        store_as (point_type (?hF 0)) z))
           \<and> (point_type (?hF 0) = VTK_DOUBLE \<longrightarrow>
                (\<forall>i<nrows ?mF. \<exists>x y z. getitem_row ?mF i = Inr [x, y, z]
                                   \<and> points (h' 0) ! i = (x, y, z)))
           \<and> cells (h' 0) = cells (?hF 0)
           \<and> point_type (h' 0) = point_type (?hF 0)"
    by (rule pointcloud2surface_vertices[OF wfF trF]) simp_all
  then obtain g' where runF: "pointcloud2surface ?pcF 0 ?hF = (g', Inr 0)"
    and lenF: "length (points (g' 0)) = 1"
    and rowsF: "\<forall>i<1. \<exists>x y z. getitem_row ?mF i = Inr [x, y, z]
                  \<and> points (g' 0) ! i = (store_as VTK_FLOAT x, store_as VTK_FLOAT y,
                                           store_as VTK_FLOAT z)"
    and clF: "cells (g' 0) = [[0]]"
    and tyF: "point_type (g' 0) = VTK_FLOAT"
    by auto
  have rF: "getitem_row ?mF 0 = Inr [16777217, 0, 0]" by (simp add: getitem_row_def)
  have zero: "to_float32 0 = 0" by (simp add: to_float32_def)
  have "\<exists>x y z. getitem_row ?mF 0 = Inr [x, y, z]
          \<and> points (g' 0) ! 0 = (store_as VTK_FLOAT x, store_as VTK_FLOAT y, store_as VTK_FLOAT z)"
    using rowsF by simp
  then have "points (g' 0) ! 0
               = (store_as VTK_FLOAT 16777217, store_as VTK_FLOAT 0, store_as VTK_FLOAT 0)"
    unfolding rF by auto
  then have pF: "points (g' 0) ! 0 = (16777216, 0, 0)"
    by (simp add: store_as_def to_float32_16777217 zero)
  have float: "\<exists>h'. pointcloud2surface ?pcF 0 ?hF = (h', Inr 0)
          \<and> length (points (h' 0)) = 1
          \<and> points (h' 0) ! 0 = (16777216, 0, 0)
          \<and> cells (h' 0) = [[0]] \<and> point_type (h' 0) = VTK_FLOAT"
    by (intro conjI exI[of _ g']) (rule runF lenF pF clF tyF)+
  show ?thesis
    by (intro conjI) (rule wf tr double wfF trF float)+
qed

section \<open>A point cloud of the wrong size\<close>

text \<open>
  Claim C5, as stated, fails: a flat point cloud of nine reals and a template of two
  points make \<^verbatim>\<open>pointcloud2surface\<close> return normally, with the first two rows written and
  the third ignored.
\<close>

theorem pointcloud2surface_longer_counterexample:
  "pointcloud2surface \<lparr>shape = [9], data = [1, 2, 3, 4, 5, 6, 7, 8, 9]\<rparr> 0
     (\<lambda>r. \<lparr>point_type = VTK_DOUBLE, points = [(0, 0, 0), (0, 0, 0)], cells = [[0, 1]]\<rparr>)
   = ((\<lambda>r. \<lparr>point_type = VTK_DOUBLE, points = [(0, 0, 0), (0, 0, 0)], cells = [[0, 1]]\<rparr>)
        (0 := \<lparr>point_type = VTK_DOUBLE, points = [(1, 2, 3), (4, 5, 6)], cells = [[0, 1]]\<rparr>), Inr 0)"
proof -
  let ?pc = "\<lparr>shape = [9], data = [1, 2, 3, 4, 5, 6, 7, 8, 9]\<rparr>"
  let ?m = "\<lparr>nrows = 3, ncols = 3, elems = [1, 2, 3, 4, 5, 6, 7, 8, 9]\<rparr>"
  let ?h = "\<lambda>r::nat. \<lparr>point_type = VTK_DOUBLE, points = [(0, 0, 0), (0, 0, 0)], cells = [[0::nat, 1]]\<rparr>"
  have wf: "wf_ndarray ?pc" by (simp add: wf_ndarray_def)
  have tr: "to_rows ?pc = Inr ?m" by (simp add: to_rows_def reshape_rows3_def)
  have two: "[0..<2] = [0, 1]" by (simp add: eval_nat_numeral)
  have "pointcloud2surface ?pc 0 ?h =
          (?h(0 := (?h 0)\<lparr>points := map (stored_vertex (point_type (?h 0)) ?m) [0..<length (points (?h 0))]\<rparr>), Inr 0)"
    by (rule pointcloud2surface_enough_rows[OF wf tr]) simp_all
  then show ?thesis by (simp add: two entry_def)
qed

text \<open>
  Claim C5, amended. A point cloud that is not of rank two and whose size is not a
  multiple of 3 makes \<^verbatim>\<open>pointcloud2surface\<close> raise the ValueError of the reshape, with the
  mesh untouched. One with fewer rows than the template has points makes it raise
  IndexError at the first missing row, after the points before it have been overwritten.
  One with more rows than the template has points does not fail: the first \<open>V\<close> rows are
  written and the others are ignored.
\<close>

theorem pointcloud2surface_shape_mismatch:
  assumes "wf_ndarray pc"
  shows "(length (shape pc) \<noteq> 2 \<and> prod_list (shape pc) mod 3 \<noteq> 0 \<longrightarrow>
            pointcloud2surface pc r h = (h, Inl ValueError))
         \<and> (to_rows pc = Inr m \<and> ncols m = 3 \<and> nrows m < length (points (h r)) \<longrightarrow>
              snd (pointcloud2surface pc r h) = Inl IndexError
              \<and> points (fst (pointcloud2surface pc r h) r)
                  = map (stored_vertex (point_type (h r)) m) [0..<nrows m] @ drop (nrows m) (points (h r)))
         \<and> (to_rows pc = Inr m \<and> ncols m = 3 \<and> length (points (h r)) < nrows m \<longrightarrow>
              snd (pointcloud2surface pc r h) = Inr r
              \<and> points (fst (pointcloud2surface pc r h) r)
                  = map (stored_vertex (point_type (h r)) m) [0..<length (points (h r))])"
proof (intro conjI impI)
  assume "length (shape pc) \<noteq> 2 \<and> prod_list (shape pc) mod 3 \<noteq> 0"
  then show "pointcloud2surface pc r h = (h, Inl ValueError)"
    by (simp add: pointcloud2surface_def to_rows_def reshape_rows3_def)
next
  assume a: "to_rows pc = Inr m \<and> ncols m = 3 \<and> nrows m < length (points (h r))"
  then have run: "pointcloud2surface pc r h =
      (h(r := (h r)\<lparr>points := map (stored_vertex (point_type (h r)) m) [0..<nrows m]
                                 @ drop (nrows m) (points (h r))\<rparr>), Inl IndexError)"
    using assms by (intro pointcloud2surface_too_few_rows) simp_all
  show "snd (pointcloud2surface pc r h) = Inl IndexError" by (simp add: run)
  show "points (fst (pointcloud2surface pc r h) r)
          = map (stored_vertex (point_type (h r)) m) [0..<nrows m] @ drop (nrows m) (points (h r))"
    by (simp add: run)
next
  assume a: "to_rows pc = Inr m \<and> ncols m = 3 \<and> length (points (h r)) < nrows m"
  then have run: "pointcloud2surface pc r h =
      (h(r := (h r)\<lparr>points := map (stored_vertex (point_type (h r)) m) [0..<length (points (h r))]\<rparr>), Inr r)"
    using assms by (intro pointcloud2surface_enough_rows) simp_all
  show "snd (pointcloud2surface pc r h) = Inr r" by (simp add: run)
  show "points (fst (pointcloud2surface pc r h) r)
          = map (stored_vertex (point_type (h r)) m) [0..<length (points (h r))]"
    by (simp add: run)
qed

theorem pointcloud2surface_shape_mismatch_witness:
  "wf_ndarray \<lparr>shape = [4], data = [1, 2, 3, 4]\<rparr>
   \<and> length (shape \<lparr>shape = [4], data = [1, 2, 3, 4]\<rparr>) \<noteq> 2
   \<and> prod_list (shape \<lparr>shape = [4], data = [1, 2, 3, 4]\<rparr>) mod 3 \<noteq> 0
   \<and> pointcloud2surface \<lparr>shape = [4], data = [1, 2, 3, 4]\<rparr> 0
        (\<lambda>r. \<lparr>point_type = VTK_DOUBLE, points = [(0, 0, 0), (0, 0, 0)], cells = [[0, 1]]\<rparr>)
      = (\<lambda>r. \<lparr>point_type = VTK_DOUBLE, points = [(0, 0, 0), (0, 0, 0)], cells = [[0, 1]]\<rparr>, Inl ValueError)
   \<and> wf_ndarray \<lparr>shape = [3], data = [1, 2, 3]\<rparr>
   \<and> to_rows \<lparr>shape = [3], data = [1, 2, 3]\<rparr> = Inr \<lparr>nrows = 1, ncols = 3, elems = [1, 2, 3]\<rparr>
   \<and> snd (pointcloud2surface \<lparr>shape = [3], data = [1, 2, 3]\<rparr> 0
        (\<lambda>r. \<lparr>point_type = VTK_DOUBLE, points = [(0, 0, 0), (0, 0, 0)], cells = [[0, 1]]\<rparr>)) = Inl IndexError
   \<and> points (fst (pointcloud2surface \<lparr>shape = [3], data = [1, 2, 3]\<rparr> 0
        (\<lambda>r. \<lparr>point_type = VTK_DOUBLE, points = [(0, 0, 0), (0, 0, 0)], cells = [[0, 1]]\<rparr>)) 0) = [(1, 2, 3), (0, 0, 0)]
   \<and> wf_ndarray \<lparr>shape = [2, 3], data = [1, 2, 3, 4, 5, 6]\<rparr>
   \<and> to_rows \<lparr>shape = [2, 3], data = [1, 2, 3, 4, 5, 6]\<rparr>
       = Inr \<lparr>nrows = 2, ncols = 3, elems = [1, 2, 3, 4, 5, 6]\<rparr>
   \<and> snd (pointcloud2surface \<lparr>shape = [2, 3], data = [1, 2, 3, 4, 5, 6]\<rparr> 0
        (\<lambda>r. \<lparr>point_type = VTK_DOUBLE, points = [(0, 0, 0)], cells = [[0]]\<rparr>)) = Inr 0
   \<and> points (fst (pointcloud2surface \<lparr>shape = [2, 3], data = [1, 2, 3, 4, 5, 6]\<rparr> 0
        (\<lambda>r. \<lparr>point_type = VTK_DOUBLE, points = [(0, 0, 0)], cells = [[0]]\<rparr>)) 0) = [(1, 2, 3)]"
proof -
  let ?h2 = "\<lambda>r::nat. \<lparr>point_type = VTK_DOUBLE, points = [(0, 0, 0), (0, 0, 0)], cells = [[0::nat, 1]]\<rparr>"
  let ?h1 = "\<lambda>r::nat. \<lparr>point_type = VTK_DOUBLE, points = [(0::real, 0::real, 0::real)], cells = [[0::nat]]\<rparr>"
  let ?a = "\<lparr>shape = [4], data = [1, 2, 3, 4]\<rparr>"
  let ?b = "\<lparr>shape = [3], data = [1, 2, 3]\<rparr>"
  let ?mb = "\<lparr>nrows = 1, ncols = 3, elems = [1, 2, 3]\<rparr>"
  let ?c = "\<lparr>shape = [2, 3], data = [1, 2, 3, 4, 5, 6]\<rparr>"
  let ?mc = "\<lparr>nrows = 2, ncols = 3, elems = [1, 2, 3, 4, 5, 6]\<rparr>"
  have wa: "wf_ndarray ?a" and wb: "wf_ndarray ?b" and wc: "wf_ndarray ?c"
    by (simp_all add: wf_ndarray_def)
  have tb: "to_rows ?b = Inr ?mb" by (simp add: to_rows_def reshape_rows3_def)
  have tc: "to_rows ?c = Inr ?mc" by (simp add: to_rows_def as_matrix_def)
  have A: "pointcloud2surface ?a 0 ?h2 = (?h2, Inl ValueError)"
    using pointcloud2surface_shape_mismatch[OF wa, where r = 0 and h = ?h2] by simp
  have B: "snd (pointcloud2surface ?b 0 ?h2) = Inl IndexError
           \<and> points (fst (pointcloud2surface ?b 0 ?h2) 0) = [(1, 2, 3), (0, 0, 0)]"
    using pointcloud2surface_shape_mismatch[OF wb, where r = 0 and h = ?h2 and m = ?mb] tb
    by (simp add: entry_def)
  have C: "snd (pointcloud2surface ?c 0 ?h1) = Inr 0
           \<and> points (fst (pointcloud2surface ?c 0 ?h1) 0) = [(1, 2, 3)]"
    using pointcloud2surface_shape_mismatch[OF wc, where r = 0 and h = ?h1 and m = ?mc] tc
    by (simp add: entry_def)
  show ?thesis using wa wb wc tb tc A B C by simp
qed

section \<open>Facts about the loop over the samples\<close>

lemma row_array_entries:
  assumes "wf_matrix pcs" and "i < nrows pcs"
  shows "row_array pcs i = Inr \<lparr>shape = [ncols pcs], data = map (entry pcs i) [0..<ncols pcs]\<rparr>"
  using assms by (simp add: row_array_def getitem_row_entries)

lemma pointcloud2surface_row:
  assumes "wf_matrix pcs" and "i < nrows pcs" and "ncols pcs = 3 * length (points (h r))"
    and "row_array pcs i = Inr pc"
  shows "pointcloud2surface pc r h =
           (h(r := (h r)\<lparr>points := sample_vertices (point_type (h r)) pcs i
                                      (length (points (h r)))\<rparr>), Inr r)"
proof -
  let ?V = "length (points (h r))"
  let ?m = "\<lparr>nrows = ?V, ncols = 3, elems = map (entry pcs i) [0..<3 * ?V]\<rparr>"
  have pc: "pc = \<lparr>shape = [3 * ?V], data = map (entry pcs i) [0..<3 * ?V]\<rparr>"
    using row_array_entries[OF assms(1,2)] assms(3,4) by simp
  have wf: "wf_ndarray pc" by (simp add: pc wf_ndarray_def)
  have tr: "to_rows pc = Inr ?m" by (simp add: pc to_rows_def reshape_rows3_def)
  have run: "pointcloud2surface pc r h =
               (h(r := (h r)\<lparr>points := map (stored_vertex (point_type (h r)) ?m) [0..<?V]\<rparr>),
                Inr r)"
    by (rule pointcloud2surface_enough_rows[OF wf tr]) simp_all
  have "map (stored_vertex (point_type (h r)) ?m) [0..<?V]
          = sample_vertices (point_type (h r)) pcs i ?V"
  proof (rule map_cong[OF refl])
    fix v assume "v \<in> set [0..<?V]"
    then have v: "v < ?V" by simp
    then have "v * 3 < 3 * ?V" "v * 3 + 1 < 3 * ?V" "v * 3 + 2 < 3 * ?V" by simp_all
    then show "stored_vertex (point_type (h r)) ?m v
                 = (store_as (point_type (h r)) (entry pcs i (3 * v)),
                    store_as (point_type (h r)) (entry pcs i (3 * v + 1)),
                    store_as (point_type (h r)) (entry pcs i (3 * v + 2)))"
      by (simp add: entry_def[of ?m] mult.commute)
  qed
  then show ?thesis unfolding run by (simp only:)
qed

lemma write_samples_run:
  assumes "wf_matrix pcs" and "ncols pcs = 3 * length (points (heap w r))"
    and "\<forall>i\<in>set idx. i < nrows pcs"
  shows "write_samples ml out n r pcs idx w =
           (w\<lparr>heap := (if idx = [] then heap w
                        else (heap w)(r := (heap w r)\<lparr>points :=
                               sample_vertices (point_type (heap w r)) pcs (last idx)
                                 (length (points (heap w r)))\<rparr>)),
              written := written w @
                map (\<lambda>i. ((out, file_name_of (order_of (ml n)) i),
                           (heap w r)\<lparr>points :=
                              sample_vertices (point_type (heap w r)) pcs i
                                (length (points (heap w r)))\<rparr>)) idx\<rparr>,
            Inr PyNone)"
  using assms(2,3)
proof (induction idx arbitrary: w)
  case Nil
  then show ?case by simp
next
  case (Cons i idx)
  let ?V = "length (points (heap w r))"
  let ?h = "(heap w)(r := (heap w r)\<lparr>points := sample_vertices (point_type (heap w r)) pcs i ?V\<rparr>)"
  let ?w = "write_vtk_file r (out, file_name_of (order_of (ml n)) i) (w\<lparr>heap := ?h\<rparr>)"
  have i: "i < nrows pcs" using Cons.prems(2) by simp
  obtain pc where ra: "row_array pcs i = Inr pc"
    using row_array_entries[OF assms(1) i] by simp
  have p2s: "pointcloud2surface pc r (heap w) = (?h, Inr r)"
    using pointcloud2surface_row[where h = "heap w" and r = r, OF assms(1) i Cons.prems(1) ra] .
  have step: "write_samples ml out n r pcs (i # idx) w = write_samples ml out n r pcs idx ?w"
    by (simp add: ra p2s Let_def)
  have hw: "heap ?w = ?h" by (simp add: write_vtk_file_def)
  have len: "length (points (heap ?w r)) = ?V" unfolding hw by simp
  have ty: "point_type (heap ?w r) = point_type (heap w r)" unfolding hw by simp
  have ih: "write_samples ml out n r pcs idx ?w =
           (?w\<lparr>heap := (if idx = [] then heap ?w
                        else (heap ?w)(r := (heap ?w r)\<lparr>points :=
                               sample_vertices (point_type (heap ?w r)) pcs (last idx)
                                 (length (points (heap ?w r)))\<rparr>)),
              written := written ?w @
                map (\<lambda>i. ((out, file_name_of (order_of (ml n)) i),
                           (heap ?w r)\<lparr>points :=
                              sample_vertices (point_type (heap ?w r)) pcs i
                                (length (points (heap ?w r)))\<rparr>)) idx\<rparr>,
            Inr PyNone)"
  proof (rule Cons.IH)
    show "ncols pcs = 3 * length (points (heap ?w r))"
      unfolding len using Cons.prems(1) .
    show "\<forall>i\<in>set idx. i < nrows pcs" using Cons.prems(2) by simp
  qed
  show ?case
    unfolding step ih len ty
    apply (simp only: prod.inject simp_thms)
    apply (rule world.equality)
    apply (simp_all add: write_vtk_file_def fun_eq_iff)
    done
qed

lemma write_samples_returns_none:
  "snd (write_samples ml out n r pcs idx w) = Inr v \<Longrightarrow> v = PyNone"
  by (induction idx arbitrary: w) (auto simp: Let_def split: sum.splits prod.splits)

lemma write_samples_stdout:
  "stdout (fst (write_samples ml out n r pcs idx w)) = stdout w"
  by (induction idx arbitrary: w)
     (auto simp: Let_def write_vtk_file_def split: sum.splits prod.splits)

lemma write_samples_paths:
  "paths (fst (write_samples ml out n r pcs idx w)) = paths w"
  by (induction idx arbitrary: w)
     (auto simp: Let_def write_vtk_file_def split: sum.splits prod.splits)

section \<open>Facts about the pipeline after the checks\<close>

lemma last_upt_nat: "0 < n \<Longrightarrow> last [0..<n] = n - 1"
  by (cases n) simp_all

lemma run_pipeline_run:
  assumes h5: "h5_files w (input_path @ ''/SSM.h5'') = Some f"
    and n: "0 < n" and K: "0 < K"
    and rows: "nat K \<le> nrows (components f)"
    and ev: "nat K \<le> length (explained_variance f)"
    and mean: "length (mean f) = ncols (components f)"
    and V: "ncols (components f) = 3 * length (points (vtk_files w (input_path @ ''/mean_shape.vtk'')))"
  shows "\<exists>w' S pcs.
           run_pipeline ml input_path output_path n K b w = (w', Inr PyNone)
           \<and> snd (sample n K (take (nat K) (explained_variance f)) b (rng w)) = Inr S
           \<and> reconstruct S (take_rows (nat K) (components f)) (mean f) = Inr pcs
           \<and> nrows pcs = nat n \<and> ncols pcs = ncols (components f)
           \<and> next_ref w' = Suc (next_ref w)
           \<and> (\<forall>r. r \<noteq> next_ref w \<longrightarrow> heap w' r = heap w r)
           \<and> heap w' (next_ref w) =
               (vtk_files w (input_path @ ''/mean_shape.vtk''))\<lparr>points :=
                  sample_vertices (point_type (vtk_files w (input_path @ ''/mean_shape.vtk'')))
                    pcs (nat n - 1)
                    (length (points (vtk_files w (input_path @ ''/mean_shape.vtk''))))\<rparr>
           \<and> written w' = written w @
                map (\<lambda>i. ((output_path, file_name_of (order_of (ml n)) i),
                           (vtk_files w (input_path @ ''/mean_shape.vtk''))\<lparr>points :=
                              sample_vertices (point_type (vtk_files w (input_path @ ''/mean_shape.vtk'')))
                                pcs i
                                (length (points (vtk_files w (input_path @ ''/mean_shape.vtk''))))\<rparr>))
                    [0..<nat n]
           \<and> paths w' = paths w \<and> stdout w' = stdout w"
proof -
  let ?M = "vtk_files w (input_path @ ''/mean_shape.vtk'')"
  let ?r = "next_ref w"
  let ?w1 = "w\<lparr>heap := (heap w)(?r := ?M), next_ref := Suc ?r\<rparr>"
  let ?ev = "take (nat K) (explained_variance f)"
  let ?comps = "take_rows (nat K) (components f)"
  have lh: "load_h5py input_path w = Inr (components f, mean f, explained_variance f)"
    by (simp add: load_h5py_def h5)
  have lv: "load_mean_vtk input_path w = (?r, ?w1)"
    by (simp add: load_mean_vtk_def)
  have lev: "length ?ev = nat K" using ev by simp
  obtain g S where smp: "sample n K ?ev b (rng ?w1) = (g, Inr S)"
    and S: "nrows S = nat n" "ncols S = nat K"
    using sample_exact_length[of n K ?ev b "rng ?w1"] n K lev by simp
  have cshape: "nrows ?comps = nat K" "ncols ?comps = ncols (components f)"
    using rows by (simp_all add: take_rows_def)
  obtain pcs where rec: "reconstruct S ?comps (mean f) = Inr pcs"
    and P: "nrows pcs = nat n" "ncols pcs = ncols (components f)" "wf_matrix pcs"
    using reconstruct_closed_form[of ?comps S "mean f"] cshape S mean
    by (simp add: wf_matrix_def)
  let ?w2 = "?w1\<lparr>rng := g\<rparr>"
  have hw2: "heap ?w2 ?r = ?M" by simp
  have nc: "ncols pcs = 3 * length (points (heap ?w2 ?r))"
    unfolding hw2 using P(2) V by simp
  have idx: "\<forall>i\<in>set [0..<nat n]. i < nrows pcs" using P(1) by simp
  note loop = write_samples_run[OF P(3) nc idx, of ml output_path n]
  have ne: "[0..<nat n] \<noteq> []" using n by simp
  have run: "run_pipeline ml input_path output_path n K b w
               = write_samples ml output_path n ?r pcs [0..<nat n] ?w2"
    using smp rec by (simp add: run_pipeline_def lh lv Let_def)
  show ?thesis
    apply (rule exI[of _ "fst (write_samples ml output_path n ?r pcs [0..<nat n] ?w2)"])
    apply (rule exI[of _ S], rule exI[of _ pcs])
    unfolding run loop hw2
    using smp rec P(1,2) ne n
    by (simp add: last_upt_nat)
qed

lemma run_pipeline_returns_none:
  "snd (run_pipeline ml input_path output_path n K b w) = Inr v \<Longrightarrow> v = PyNone"
  by (auto simp: run_pipeline_def Let_def dest: write_samples_returns_none
      split: sum.splits prod.splits)

lemma run_pipeline_stdout:
  "stdout (fst (run_pipeline ml input_path output_path n K b w)) = stdout w"
  by (auto simp: run_pipeline_def Let_def load_mean_vtk_def write_samples_stdout
      split: sum.splits prod.splits)

section \<open>The checks of the orchestration\<close>

lemma generate_after_mkdir:
  assumes "input_path \<in> paths w" and "output_path \<in> paths w \<or> output_path \<notin> mkdir_denied w"
  shows "generate_synthetic_mesh ml input_path output_path n K b w =
           (let w1 = (if output_path \<in> paths w then w
                      else w\<lparr>paths := insert output_path (paths w)\<rparr>)
            in if n \<le> 0 then (print (InvalidSampleCount n) w1, Inr PyFalse)
               else if K \<ge> 95 \<or> K \<le> 0 then (print (InvalidComponentCount K) w1, Inr PyFalse)
               else if \<not> (- 1 = b \<or> (0 < b \<and> b \<le> 5))
               then (print (InvalidBoundary b) w1, Inr PyFalse)
               else run_pipeline ml input_path output_path n K b w1)"
  using assms by (auto simp: generate_synthetic_mesh_def os_mkdir_def Let_def)

text \<open>
  Claim C4. \<^verbatim>\<open>generate_synthetic_mesh\<close> checks in order and returns \<^verbatim>\<open>False\<close>, with one
  line printed, at the first check that fails: a missing input path; then, once the output
  folder exists or has been made, \<open>num_samples \<le> 0\<close>; then \<open>num_components\<close> outside
  \<open>(0, 95)\<close>, which includes 0 and 95; then a boundary that is neither \<open>- 1\<close> nor in
  \<open>(0, 5]\<close>. When all pass (as with 94 components) nothing is printed and the call goes
  on to load the model.
\<close>

theorem generate_validation_order:
  "(input_path \<notin> paths w \<longrightarrow>
      generate_synthetic_mesh ml input_path output_path n K b w
        = (print (PathNotFound input_path) w, Inr PyFalse))
   \<and> (input_path \<in> paths w \<and> (output_path \<in> paths w \<or> output_path \<notin> mkdir_denied w)
        \<and> w1 = (if output_path \<in> paths w then w else w\<lparr>paths := insert output_path (paths w)\<rparr>)
      \<longrightarrow>
        (n \<le> 0 \<longrightarrow>
           generate_synthetic_mesh ml input_path output_path n K b w
             = (print (InvalidSampleCount n) w1, Inr PyFalse))
        \<and> (0 < n \<and> (K \<le> 0 \<or> 95 \<le> K) \<longrightarrow>
             generate_synthetic_mesh ml input_path output_path n K b w
               = (print (InvalidComponentCount K) w1, Inr PyFalse))
        \<and> (0 < n \<and> 0 < K \<and> K < 95 \<and> b \<noteq> - 1 \<and> (b \<le> 0 \<or> 5 < b) \<longrightarrow>
             generate_synthetic_mesh ml input_path output_path n K b w
               = (print (InvalidBoundary b) w1, Inr PyFalse))
        \<and> (0 < n \<and> 0 < K \<and> K < 95 \<and> (b = - 1 \<or> (0 < b \<and> b \<le> 5)) \<longrightarrow>
             generate_synthetic_mesh ml input_path output_path n K b w
               = run_pipeline ml input_path output_path n K b w1
             \<and> stdout (fst (generate_synthetic_mesh ml input_path output_path n K b w))
                 = stdout w))"
proof (intro conjI impI)
  assume "input_path \<notin> paths w"
  then show "generate_synthetic_mesh ml input_path output_path n K b w
        = (print (PathNotFound input_path) w, Inr PyFalse)"
    by (simp add: generate_synthetic_mesh_def)
next
  assume a: "input_path \<in> paths w \<and> (output_path \<in> paths w \<or> output_path \<notin> mkdir_denied w)
        \<and> w1 = (if output_path \<in> paths w then w else w\<lparr>paths := insert output_path (paths w)\<rparr>)"
  note g = generate_after_mkdir[of input_path w output_path ml n K b]
  {
    assume "n \<le> 0"
    then show "generate_synthetic_mesh ml input_path output_path n K b w
             = (print (InvalidSampleCount n) w1, Inr PyFalse)"
      using a g by (simp add: Let_def)
  next
    assume "0 < n \<and> (K \<le> 0 \<or> 95 \<le> K)"
    then show "generate_synthetic_mesh ml input_path output_path n K b w
               = (print (InvalidComponentCount K) w1, Inr PyFalse)"
      using a g by (auto simp: Let_def)
  next
    assume "0 < n \<and> 0 < K \<and> K < 95 \<and> b \<noteq> - 1 \<and> (b \<le> 0 \<or> 5 < b)"
    then show "generate_synthetic_mesh ml input_path output_path n K b w
               = (print (InvalidBoundary b) w1, Inr PyFalse)"
      using a g by (auto simp: Let_def)
  next
    assume v: "0 < n \<and> 0 < K \<and> K < 95 \<and> (b = - 1 \<or> (0 < b \<and> b \<le> 5))"
    then show r: "generate_synthetic_mesh ml input_path output_path n K b w
               = run_pipeline ml input_path output_path n K b w1"
      using a g by (auto simp: Let_def)
    show "stdout (fst (generate_synthetic_mesh ml input_path output_path n K b w)) = stdout w"
      unfolding r using a by (auto simp: run_pipeline_stdout)
  }
qed

theorem generate_validation_order_witness:
  "generate_synthetic_mesh (\<lambda>x. 0) ''missing'' ''out'' 1 2 (- 1) scenario_world
     = (print (PathNotFound ''missing'') scenario_world, Inr PyFalse)
   \<and> generate_synthetic_mesh (\<lambda>x. 0) ''model'' ''out'' 0 0 7 scenario_world
     = (print (InvalidSampleCount 0) (scenario_world\<lparr>paths := {''out'', ''model''}\<rparr>), Inr PyFalse)
   \<and> generate_synthetic_mesh (\<lambda>x. 0) ''model'' ''out'' 1 0 7 scenario_world
     = (print (InvalidComponentCount 0) (scenario_world\<lparr>paths := {''out'', ''model''}\<rparr>), Inr PyFalse)
   \<and> generate_synthetic_mesh (\<lambda>x. 0) ''model'' ''out'' 1 95 7 scenario_world
     = (print (InvalidComponentCount 95) (scenario_world\<lparr>paths := {''out'', ''model''}\<rparr>), Inr PyFalse)
   \<and> generate_synthetic_mesh (\<lambda>x. 0) ''model'' ''out'' 1 94 7 scenario_world
     = (print (InvalidBoundary 7) (scenario_world\<lparr>paths := {''out'', ''model''}\<rparr>), Inr PyFalse)
   \<and> generate_synthetic_mesh (\<lambda>x. 0) ''model'' ''out'' 1 94 5 scenario_world
     = run_pipeline (\<lambda>x. 0) ''model'' ''out'' 1 94 5 (scenario_world\<lparr>paths := {''out'', ''model''}\<rparr>)
   \<and> stdout (fst (generate_synthetic_mesh (\<lambda>x. 0) ''model'' ''out'' 1 94 5 scenario_world)) = []"
proof -
  let ?w1 = "scenario_world\<lparr>paths := {''out'', ''model''}\<rparr>"
  note t = generate_validation_order[where w = scenario_world and ml = "\<lambda>x. 0"
      and output_path = "''out''" and ?w1.0 = ?w1]
  have a: "generate_synthetic_mesh (\<lambda>x. 0) ''missing'' ''out'' 1 2 (- 1) scenario_world
     = (print (PathNotFound ''missing'') scenario_world, Inr PyFalse)"
    using t[where input_path = "''missing''" and n = 1 and K = 2 and b = "- 1"] by simp
  have b: "generate_synthetic_mesh (\<lambda>x. 0) ''model'' ''out'' 0 0 7 scenario_world
     = (print (InvalidSampleCount 0) ?w1, Inr PyFalse)"
    using t[where input_path = "''model''" and n = 0 and K = 0 and b = 7] by simp
  have c: "generate_synthetic_mesh (\<lambda>x. 0) ''model'' ''out'' 1 0 7 scenario_world
     = (print (InvalidComponentCount 0) ?w1, Inr PyFalse)"
    using t[where input_path = "''model''" and n = 1 and K = 0 and b = 7] by simp
  have d: "generate_synthetic_mesh (\<lambda>x. 0) ''model'' ''out'' 1 95 7 scenario_world
     = (print (InvalidComponentCount 95) ?w1, Inr PyFalse)"
    using t[where input_path = "''model''" and n = 1 and K = 95 and b = 7] by simp
  have e: "generate_synthetic_mesh (\<lambda>x. 0) ''model'' ''out'' 1 94 7 scenario_world
     = (print (InvalidBoundary 7) ?w1, Inr PyFalse)"
    using t[where input_path = "''model''" and n = 1 and K = 94 and b = 7] by simp
  have f: "generate_synthetic_mesh (\<lambda>x. 0) ''model'' ''out'' 1 94 5 scenario_world
     = run_pipeline (\<lambda>x. 0) ''model'' ''out'' 1 94 5 ?w1
     \<and> stdout (fst (generate_synthetic_mesh (\<lambda>x. 0) ''model'' ''out'' 1 94 5 scenario_world)) = []"
    using t[where input_path = "''model''" and n = 1 and K = 94 and b = 5] by auto
  show ?thesis
    by (intro conjI; rule a b c d e f[THEN conjunct1] f[THEN conjunct2])
qed

section \<open>What the orchestration returns\<close>

text \<open>
  Claim C7. \<^verbatim>\<open>generate_synthetic_mesh\<close> returns \<^verbatim>\<open>False\<close>, and raises nothing, whenever one
  of its four checks fails; and when every check passes and the call completes without an
  exception, it returns the value it returns at the end of its body, \<^verbatim>\<open>None\<close>, which is
  not \<^verbatim>\<open>False\<close>.
\<close>

theorem generate_returns_false_or_none:
  "(input_path \<notin> paths w \<longrightarrow>
      snd (generate_synthetic_mesh ml input_path output_path n K b w) = Inr PyFalse)
   \<and> (input_path \<in> paths w \<and> (output_path \<in> paths w \<or> output_path \<notin> mkdir_denied w)
        \<and> (n \<le> 0 \<or> K \<le> 0 \<or> 95 \<le> K \<or> (b \<noteq> - 1 \<and> (b \<le> 0 \<or> 5 < b)))
      \<longrightarrow> snd (generate_synthetic_mesh ml input_path output_path n K b w) = Inr PyFalse)
   \<and> (input_path \<in> paths w \<and> 0 < n \<and> 0 < K \<and> K < 95 \<and> (b = - 1 \<or> (0 < b \<and> b \<le> 5))
        \<and> snd (generate_synthetic_mesh ml input_path output_path n K b w) = Inr v
      \<longrightarrow> v = PyNone \<and> v \<noteq> PyFalse)"
proof (intro conjI impI)
  assume "input_path \<notin> paths w"
  then show "snd (generate_synthetic_mesh ml input_path output_path n K b w) = Inr PyFalse"
    by (simp add: generate_synthetic_mesh_def)
next
  assume a: "input_path \<in> paths w \<and> (output_path \<in> paths w \<or> output_path \<notin> mkdir_denied w)
        \<and> (n \<le> 0 \<or> K \<le> 0 \<or> 95 \<le> K \<or> (b \<noteq> - 1 \<and> (b \<le> 0 \<or> 5 < b)))"
  then show "snd (generate_synthetic_mesh ml input_path output_path n K b w) = Inr PyFalse"
    using generate_after_mkdir[of input_path w output_path ml n K b]
    by (auto simp: Let_def)
next
  assume a: "input_path \<in> paths w \<and> 0 < n \<and> 0 < K \<and> K < 95 \<and> (b = - 1 \<or> (0 < b \<and> b \<le> 5))
        \<and> snd (generate_synthetic_mesh ml input_path output_path n K b w) = Inr v"
  have none: "v = PyNone"
  proof (cases "output_path \<in> paths w \<or> output_path \<notin> mkdir_denied w")
    case True
    then obtain w1 where
      "generate_synthetic_mesh ml input_path output_path n K b w
         = run_pipeline ml input_path output_path n K b w1"
      using a generate_after_mkdir[of input_path w output_path ml n K b]
      by (auto simp: Let_def)
    then show ?thesis using a run_pipeline_returns_none by metis
  next
    case False
    then have "snd (generate_synthetic_mesh ml input_path output_path n K b w) = Inl OSError"
      using a by (simp add: generate_synthetic_mesh_def os_mkdir_def)
    then show ?thesis using a by simp
  qed
  show "v = PyNone" by (rule none)
  show "v \<noteq> PyFalse" using none by simp
qed

theorem generate_returns_false_or_none_witness:
  "snd (generate_synthetic_mesh (\<lambda>x. 0) ''missing'' ''out'' 1 2 (- 1) scenario_world) = Inr PyFalse
   \<and> snd (generate_synthetic_mesh (\<lambda>x. 0) ''model'' ''out'' 1 2 0 scenario_world) = Inr PyFalse
   \<and> snd (generate_synthetic_mesh (\<lambda>x. 0) ''model'' ''out'' 1 2 (- 1) scenario_world) = Inr PyNone
   \<and> PyNone \<noteq> PyFalse"
proof -
  note t = generate_returns_false_or_none[where w = scenario_world and ml = "\<lambda>x. 0"
      and output_path = "''out''" and n = 1 and K = 2]
  have a: "snd (generate_synthetic_mesh (\<lambda>x. 0) ''missing'' ''out'' 1 2 (- 1) scenario_world)
             = Inr PyFalse"
    using t[where input_path = "''missing''" and b = "- 1"] by simp
  have b: "snd (generate_synthetic_mesh (\<lambda>x. 0) ''model'' ''out'' 1 2 0 scenario_world)
             = Inr PyFalse"
    using t[where input_path = "''model''" and b = 0] by simp
  let ?w1 = "scenario_world\<lparr>paths := {''out'', ''model''}\<rparr>"
  have g: "generate_synthetic_mesh (\<lambda>x. 0) ''model'' ''out'' 1 2 (- 1) scenario_world
             = run_pipeline (\<lambda>x. 0) ''model'' ''out'' 1 2 (- 1) ?w1"
    using generate_after_mkdir[of "''model''" scenario_world "''out''" "\<lambda>x. 0" 1 2 "- 1"]
    by simp
  have "\<exists>w' S pcs. run_pipeline (\<lambda>x. 0) ''model'' ''out'' 1 2 (- 1) ?w1 = (w', Inr PyNone)
          \<and> snd (sample 1 2 (take (nat 2) [4, 1]) (- 1) (rng ?w1)) = Inr S
          \<and> reconstruct S (take_rows (nat 2)
               \<lparr>nrows = 2, ncols = 6, elems = [1, 0, 0, 0, 0, 0, 0, 1, 0, 0, 0, 0]\<rparr>)
               [0, 0, 0, 1, 1, 1] = Inr pcs"
    using run_pipeline_run[where w = ?w1 and input_path = "''model''" and n = 1 and K = 2
        and ml = "\<lambda>x. 0" and output_path = "''out''" and b = "- 1"
        and f = "\<lparr>components = \<lparr>nrows = 2, ncols = 6, elems = [1, 0, 0, 0, 0, 0, 0, 1, 0, 0, 0, 0]\<rparr>,
                   mean = [0, 0, 0, 1, 1, 1], explained_variance = [4, 1]\<rparr>"]
    by auto
  then obtain v where ran: "snd (generate_synthetic_mesh (\<lambda>x. 0) ''model'' ''out'' 1 2 (- 1)
      scenario_world) = Inr v"
    unfolding g by auto
  have "v = PyNone \<and> v \<noteq> PyFalse"
    using t[where input_path = "''model''" and b = "- 1" and v = v] ran by simp
  then show ?thesis using a b ran by simp
qed

section \<open>The output folder is made before the parameters are checked\<close>

text \<open>
  Claim C10. When the input path exists and the output path does not (and
  \<^verbatim>\<open>os.mkdir\<close> can make it), a call whose sample count, component count or boundary is
  invalid returns \<^verbatim>\<open>False\<close> and leaves the output folder created: the set of existing
  paths has changed.
\<close>

theorem generate_mkdir_before_checks:
  assumes "input_path \<in> paths w" and "output_path \<notin> paths w"
    and "output_path \<notin> mkdir_denied w"
    and "n \<le> 0 \<or> K \<le> 0 \<or> 95 \<le> K \<or> (b \<noteq> - 1 \<and> (b \<le> 0 \<or> 5 < b))"
  shows "snd (generate_synthetic_mesh ml input_path output_path n K b w) = Inr PyFalse
         \<and> paths (fst (generate_synthetic_mesh ml input_path output_path n K b w))
             = insert output_path (paths w)
         \<and> paths (fst (generate_synthetic_mesh ml input_path output_path n K b w)) \<noteq> paths w"
  using assms generate_after_mkdir[of input_path w output_path ml n K b]
  by (auto simp: Let_def print_def)

theorem generate_mkdir_before_checks_witness:
  "''model'' \<in> paths scenario_world \<and> ''out'' \<notin> paths scenario_world
   \<and> ''out'' \<notin> mkdir_denied scenario_world \<and> (0::int) \<le> 0
   \<and> snd (generate_synthetic_mesh (\<lambda>x. 0) ''model'' ''out'' 0 2 (- 1) scenario_world) = Inr PyFalse
   \<and> paths (fst (generate_synthetic_mesh (\<lambda>x. 0) ''model'' ''out'' 0 2 (- 1) scenario_world))
       = {''out'', ''model''}"
  using generate_mkdir_before_checks[of "''model''" scenario_world "''out''" 0 2 "- 1" "\<lambda>x. 0"]
  by simp

section \<open>The template mesh is one object, overwritten in place\<close>



section \<open>The names of the written files\<close>

text \<open>
  A call that passes its checks on a model that fits the template writes one file per
  sample index, in order, into the output folder; the name of file \<open>i\<close> is padded to the
  width that line 171 computes from \<^verbatim>\<open>math.log(num_samples, 10)\<close>.
\<close>

lemma generate_writes_named_files:
  assumes "input_path \<in> paths w"
    and "output_path \<in> paths w \<or> output_path \<notin> mkdir_denied w"
    and n: "0 < n" and K: "0 < K" and "K < 95" and "b = - 1 \<or> (0 < b \<and> b \<le> 5)"
    and h5: "h5_files w (input_path @ ''/SSM.h5'') = Some f"
    and rows: "nat K \<le> nrows (components f)"
    and ev: "nat K \<le> length (explained_variance f)"
    and mean: "length (mean f) = ncols (components f)"
    and V: "ncols (components f)
              = 3 * length (points (vtk_files w (input_path @ ''/mean_shape.vtk'')))"
  shows "\<exists>w'. generate_synthetic_mesh ml input_path output_path n K b w = (w', Inr PyNone)
           \<and> map fst (drop (length (written w)) (written w'))
               = map (\<lambda>i. (output_path, file_name_of (order_of (ml n)) i)) [0..<nat n]"
proof -
  let ?w1 = "if output_path \<in> paths w then w else w\<lparr>paths := insert output_path (paths w)\<rparr>"
  have g: "generate_synthetic_mesh ml input_path output_path n K b w
             = run_pipeline ml input_path output_path n K b ?w1"
    using assms(1-6) generate_after_mkdir[of input_path w output_path ml n K b]
    by (auto simp: Let_def)
  have same: "h5_files ?w1 = h5_files w" "vtk_files ?w1 = vtk_files w" "written ?w1 = written w"
    by simp_all
  have h5': "h5_files ?w1 (input_path @ ''/SSM.h5'') = Some f"
    unfolding same by (rule h5)
  have V': "ncols (components f)
             = 3 * length (points (vtk_files ?w1 (input_path @ ''/mean_shape.vtk'')))"
    unfolding same by (rule V)
  obtain w' pcs where
    run: "run_pipeline ml input_path output_path n K b ?w1 = (w', Inr PyNone)"
    and wr: "written w' = written w @
                map (\<lambda>i. ((output_path, file_name_of (order_of (ml n)) i),
                           (vtk_files w (input_path @ ''/mean_shape.vtk''))\<lparr>points :=
                              sample_vertices (point_type (vtk_files w (input_path @ ''/mean_shape.vtk'')))
                                pcs i
                                (length (points (vtk_files w (input_path @ ''/mean_shape.vtk''))))\<rparr>))
                    [0..<nat n]"
    using run_pipeline_run[OF h5' n K rows ev mean V', of ml output_path b]
    unfolding same by (elim exE conjE) (rule that, assumption+)
  have "map fst (drop (length (written w)) (written w'))
               = map (\<lambda>i. (output_path, file_name_of (order_of (ml n)) i)) [0..<nat n]"
    unfolding wr by (simp add: comp_def)
  then show ?thesis unfolding g using run by (intro exI[of _ w']) simp
qed

lemma log_1000: "log 10 1000 = 3"
proof -
  have "(1000::real) = 10 ^ 3" by simp
  then show ?thesis by (simp only: log_pow_cancel)
qed

text \<open>
  Claim C8. The claim is that the file names are padded to width
  \<open>\<lfloor>log\<^sub>1\<^sub>0 n\<rfloor> + 1\<close>. The code computes the width from the double that
  \<^verbatim>\<open>math.log(n, 10)\<close> returns, the rounded quotient of two rounded logarithms. For
  \<open>n = 1000\<close> that double is \<open>3 - 2\<^sup>-\<^sup>5\<^sup>1\<close>, printed as 2.9999999999999996, so the
  width is 3 and the last file is \<open>synthetic999.vtk\<close>, where the claim's width 4 gives
  \<open>synthetic0999.vtk\<close>. For \<open>n = 10\<close> and \<open>n = 1\<close> the doubles are exactly 1 and 0, and
  the names are the ones the claim lists.
\<close>

theorem padding_width_at_1000:
  "order_of (3 - 1 / 2 ^ 51) = 3
   \<and> file_name_of (order_of (3 - 1 / 2 ^ 51)) 999 = ''synthetic999.vtk''
   \<and> \<lfloor>log 10 1000\<rfloor> + 1 = (4::int)
   \<and> file_name_of (\<lfloor>log 10 1000\<rfloor> + 1) 999 = ''synthetic0999.vtk''
   \<and> map (file_name_of (order_of 1)) [0, 1, 2, 3, 4, 5, 6, 7, 8, 9]
       = [''synthetic00.vtk'', ''synthetic01.vtk'', ''synthetic02.vtk'', ''synthetic03.vtk'',
          ''synthetic04.vtk'', ''synthetic05.vtk'', ''synthetic06.vtk'', ''synthetic07.vtk'',
          ''synthetic08.vtk'', ''synthetic09.vtk'']
   \<and> file_name_of (order_of 0) 0 = ''synthetic0.vtk''"
proof -
  have w3: "order_of (3 - 1 / 2 ^ 51) = 3" by (simp add: order_of_def floor_eq_iff)
  have w4: "\<lfloor>log 10 1000\<rfloor> + 1 = (4::int)" by (simp add: log_1000)
  have w2: "order_of 1 = 2" and w1: "order_of 0 = 1" by (simp_all add: order_of_def)
  have n3: "file_name_of 3 999 = ''synthetic999.vtk''" by code_simp
  have n4: "file_name_of 4 999 = ''synthetic0999.vtk''" by code_simp
  have ten: "map (file_name_of 2) [0, 1, 2, 3, 4, 5, 6, 7, 8, 9]
       = [''synthetic00.vtk'', ''synthetic01.vtk'', ''synthetic02.vtk'', ''synthetic03.vtk'',
          ''synthetic04.vtk'', ''synthetic05.vtk'', ''synthetic06.vtk'', ''synthetic07.vtk'',
          ''synthetic08.vtk'', ''synthetic09.vtk'']" by code_simp
  have one: "file_name_of 1 0 = ''synthetic0.vtk''" by code_simp
  show ?thesis unfolding w3 w4 w2 w1 using n3 n4 ten one by (intro conjI) simp_all
qed

end
